theory Spec2Isabelle
  imports Main "HOL-Library.Word"
begin

section \<open>Strings and the C string routines used by PostmortemDebugging.cpp\<close>

text \<open>
  A \<^verbatim>\<open>const wchar_t*\<close> argument and a \<^verbatim>\<open>std::wstring\<close> are modelled by the list of their
  code units before the terminator; a pointer that may be \<^verbatim>\<open>NULL\<close> is a \<open>string option\<close>.
  \<^verbatim>\<open>wcschr\<close> and \<^verbatim>\<open>wcsstr\<close> return a pointer into the string they search, that is the suffix
  that starts at the first occurrence, or \<^verbatim>\<open>nullptr\<close> (\<open>None\<close>).
\<close>

definition wcslen :: "string \<Rightarrow> nat" where
  "wcslen s = length s"

fun wcschr :: "string \<Rightarrow> char \<Rightarrow> string option" where
  "wcschr [] c = None"
| "wcschr (x # xs) c = (if x = c then Some (x # xs) else wcschr xs c)"

fun wcsstr :: "string \<Rightarrow> string \<Rightarrow> string option" where
  "wcsstr [] needle = (if needle = [] then Some [] else None)"
| "wcsstr (x # xs) needle =
     (if take (length needle) (x # xs) = needle then Some (x # xs) else wcsstr xs needle)"

section \<open>CheckDumpNameConstraints\<close>

definition CheckDumpNameConstraints :: "string \<Rightarrow> bool" where
  "CheckDumpNameConstraints dumpName =
     (let dumpNameLength = wcslen dumpName in
      if wcschr dumpName CHR ''/'' \<noteq> None \<or>
         wcschr dumpName (CHR 0x5C) \<noteq> None \<or>
         wcsstr dumpName ''..'' \<noteq> None \<or>
         wcsstr dumpName '':'' \<noteq> None \<or>
         wcsstr dumpName ''*'' \<noteq> None \<or>
         wcsstr dumpName ''?'' \<noteq> None \<or>
         wcsstr dumpName [CHR 0x22] \<noteq> None \<or>
         dumpNameLength = 0
      then False
      else True)"

section \<open>Data of the program and of the Win32 interface\<close>

text \<open>
  Handles are pointer-sized integers, \<^verbatim>\<open>nullptr\<close> being 0 and \<^verbatim>\<open>INVALID_HANDLE_VALUE\<close> being -1.
  An \<^verbatim>\<open>EXCEPTION_POINTERS*\<close> is the address it holds, 0 for \<^verbatim>\<open>nullptr\<close>: the capture never
  reads through it. A \<^verbatim>\<open>FILETIME\<close> is its 64-bit value, which \<^verbatim>\<open>CompareFileTime\<close> compares
  unsigned. Error codes are the values of \<^verbatim>\<open>winerror.h\<close>.
\<close>

type_synonym HANDLE = int
type_synonym FILETIME = "64 word"
type_synonym DWORD = nat

abbreviation (input) nullptr :: HANDLE where "nullptr \<equiv> 0"
abbreviation (input) INVALID_HANDLE_VALUE :: HANDLE where "INVALID_HANDLE_VALUE \<equiv> - 1"

abbreviation (input) ERROR_FILE_NOT_FOUND :: DWORD where "ERROR_FILE_NOT_FOUND \<equiv> 2"
abbreviation (input) ERROR_ACCESS_DENIED :: DWORD where "ERROR_ACCESS_DENIED \<equiv> 5"
abbreviation (input) ERROR_BAD_ARGUMENTS :: DWORD where "ERROR_BAD_ARGUMENTS \<equiv> 160"
abbreviation (input) ERROR_ALREADY_EXISTS :: DWORD where "ERROR_ALREADY_EXISTS \<equiv> 183"

record WIN32_FIND_DATA =
  cFileName :: string
  ftLastWriteTime :: FILETIME

record SYSTEMTIME =
  wYear :: "16 word"
  wMonth :: "16 word"
  wDay :: "16 word"
  wHour :: "16 word"
  wMinute :: "16 word"
  wSecond :: "16 word"

record MINIDUMP_EXCEPTION_INFORMATION =
  ThreadId :: DWORD
  ExceptionPointers :: nat
  ClientPointers :: bool

definition CompareFileTime :: "FILETIME \<Rightarrow> FILETIME \<Rightarrow> int" where
  "CompareFileTime a b = (if a < b then - 1 else if a = b then 0 else 1)"

subsection \<open>What the program does to its surroundings\<close>

text \<open>
  Every call that leaves the program is recorded, in order, with what it returned. A log
  message is the list of the arguments given to the logging macro: text or a number.
\<close>

datatype log_arg = S string | D nat

datatype event =
    Log "log_arg list"
  | EvCreateDirectory string bool
  | EvFindFirstFile string bool
  | EvDeleteFile string bool
  | EvCreateFile string HANDLE
  | EvLoadLibrary string bool
  | EvGetProcAddress string bool
  | EvMiniDumpWriteDump HANDLE int HANDLE "MINIDUMP_EXCEPTION_INFORMATION option" bool
  | EvCloseHandle HANDLE bool
  | EvOpenProcess int HANDLE

text \<open>
  The Win32 services are parameters of the model: a record of functions over a machine
  state \<open>'w\<close> that the program cannot see. A service that can fail gives the value
  \<^verbatim>\<open>GetLastError\<close> returns after the failure. \<open>os_FindFirstFile\<close> gives the whole
  enumeration that \<^verbatim>\<open>FindFirstFile\<close> and the following \<^verbatim>\<open>FindNextFile\<close> calls deliver, first
  entry apart: the directory is finite, and the entries still to come do not depend on
  the deletion of an entry already delivered. \<open>os_stray\<close> is the code unit stored just
  before a string, which the source reads when the folder argument is empty.
\<close>

record 'w os =
  os_CreateDirectory :: "string \<Rightarrow> 'w \<Rightarrow> DWORD option \<times> 'w"
  os_FindFirstFile :: "string \<Rightarrow> 'w \<Rightarrow> (DWORD + WIN32_FIND_DATA \<times> WIN32_FIND_DATA list) \<times> 'w"
  os_DeleteFile :: "string \<Rightarrow> 'w \<Rightarrow> DWORD option \<times> 'w"
  os_GetLocalTime :: "'w \<Rightarrow> SYSTEMTIME"
  os_CreateFile :: "string \<Rightarrow> 'w \<Rightarrow> (HANDLE \<times> DWORD) \<times> 'w"
  os_LoadLibrary :: "string \<Rightarrow> 'w \<Rightarrow> nat option \<times> 'w"
  os_GetProcAddress :: "nat \<Rightarrow> string \<Rightarrow> 'w \<Rightarrow> bool"
  os_MiniDumpWriteDump ::
    "HANDLE \<Rightarrow> int \<Rightarrow> HANDLE \<Rightarrow> MINIDUMP_EXCEPTION_INFORMATION option \<Rightarrow> 'w \<Rightarrow> bool \<times> 'w"
  os_CloseHandle :: "HANDLE \<Rightarrow> 'w \<Rightarrow> DWORD option \<times> 'w"
  os_OpenProcess :: "int \<Rightarrow> 'w \<Rightarrow> (HANDLE \<times> DWORD) \<times> 'w"
  os_GetCurrentProcess :: "'w \<Rightarrow> HANDLE"
  os_GetCurrentProcessId :: "'w \<Rightarrow> int"
  os_GetCurrentThreadId :: "'w \<Rightarrow> DWORD"
  os_PathIsRelative :: "string \<Rightarrow> bool"
  os_stray :: "'w \<Rightarrow> char"

text \<open>
  The globals of PostmortemDebugging.cpp (\<open>g_x\<close> is the source's \<^verbatim>\<open>_x\<close>), the machine, the
  thread's last-error value and the record of events.
\<close>

record 'w state =
  g_collectDumps :: bool
  g_numRetainedMinidumps :: int
  g_dateTimeBuffer :: string
  g_dumpFolder :: string
  g_dumpName :: string
  g_minidumpStringBuilder :: string
  g_minidumpFileName :: string
  g_minidumpPattern :: string
  g_tmpPath :: string
  g_oldestFileFullName :: string
  world :: 'w
  lastError :: DWORD
  calls :: "event list"

definition emit :: "event \<Rightarrow> 'w state \<Rightarrow> 'w state" where
  "emit e s = s\<lparr>calls := calls s @ [e]\<rparr>"

text \<open>
  Modelled from the spec: the macros \<^verbatim>\<open>LOG1\<close> .. \<^verbatim>\<open>LOG4\<close> of Logging.h, which is not among the
  sources. The spec treats logging as a sink that accepts text messages, so a macro call
  hands its arguments to the sink and does nothing else.
\<close>

definition LOG :: "log_arg list \<Rightarrow> 'w state \<Rightarrow> 'w state" where
  "LOG msg s = emit (Log msg) s"

definition SetLastError :: "DWORD \<Rightarrow> 'w state \<Rightarrow> 'w state" where
  "SetLastError e s = s\<lparr>lastError := e\<rparr>"

definition CreateDirectory :: "'w os \<Rightarrow> string \<Rightarrow> 'w state \<Rightarrow> bool \<times> 'w state" where
  "CreateDirectory os path s =
     (case os_CreateDirectory os path (world s) of
        (None, w) \<Rightarrow> (True, emit (EvCreateDirectory path True) (s\<lparr>world := w\<rparr>))
      | (Some e, w) \<Rightarrow> (False, emit (EvCreateDirectory path False) (s\<lparr>world := w, lastError := e\<rparr>)))"

definition FindFirstFile ::
  "'w os \<Rightarrow> string \<Rightarrow> 'w state \<Rightarrow> (WIN32_FIND_DATA \<times> WIN32_FIND_DATA list) option \<times> 'w state" where
  "FindFirstFile os pattern s =
     (case os_FindFirstFile os pattern (world s) of
        (Inl e, w) \<Rightarrow> (None, emit (EvFindFirstFile pattern False) (s\<lparr>world := w, lastError := e\<rparr>))
      | (Inr found, w) \<Rightarrow> (Some found, emit (EvFindFirstFile pattern True) (s\<lparr>world := w\<rparr>)))"

definition DeleteFile :: "'w os \<Rightarrow> string \<Rightarrow> 'w state \<Rightarrow> bool \<times> 'w state" where
  "DeleteFile os path s =
     (case os_DeleteFile os path (world s) of
        (None, w) \<Rightarrow> (True, emit (EvDeleteFile path True) (s\<lparr>world := w\<rparr>))
      | (Some e, w) \<Rightarrow> (False, emit (EvDeleteFile path False) (s\<lparr>world := w, lastError := e\<rparr>)))"

definition CreateFile :: "'w os \<Rightarrow> string \<Rightarrow> 'w state \<Rightarrow> HANDLE \<times> 'w state" where
  "CreateFile os path s =
     (case os_CreateFile os path (world s) of
        ((h, e), w) \<Rightarrow>
          (h, emit (EvCreateFile path h)
                (if h = INVALID_HANDLE_VALUE then s\<lparr>world := w, lastError := e\<rparr>
                 else s\<lparr>world := w\<rparr>)))"

definition LoadLibrary :: "'w os \<Rightarrow> string \<Rightarrow> 'w state \<Rightarrow> nat option \<times> 'w state" where
  "LoadLibrary os name s =
     (case os_LoadLibrary os name (world s) of
        (m, w) \<Rightarrow> (m, emit (EvLoadLibrary name (m \<noteq> None)) (s\<lparr>world := w\<rparr>)))"

definition GetProcAddress :: "'w os \<Rightarrow> nat \<Rightarrow> string \<Rightarrow> 'w state \<Rightarrow> bool \<times> 'w state" where
  "GetProcAddress os m name s =
     (let found = os_GetProcAddress os m name (world s)
      in (found, emit (EvGetProcAddress name found) s))"

definition MiniDumpWriteDump ::
  "'w os \<Rightarrow> HANDLE \<Rightarrow> int \<Rightarrow> HANDLE \<Rightarrow> MINIDUMP_EXCEPTION_INFORMATION option \<Rightarrow> 'w state
     \<Rightarrow> bool \<times> 'w state" where
  "MiniDumpWriteDump os hProcess ProcessId hFile ExceptionParam s =
     (case os_MiniDumpWriteDump os hProcess ProcessId hFile ExceptionParam (world s) of
        (rv, w) \<Rightarrow>
          (rv, emit (EvMiniDumpWriteDump hProcess ProcessId hFile ExceptionParam rv)
                 (s\<lparr>world := w\<rparr>)))"

definition CloseHandle :: "'w os \<Rightarrow> HANDLE \<Rightarrow> 'w state \<Rightarrow> bool \<times> 'w state" where
  "CloseHandle os h s =
     (case os_CloseHandle os h (world s) of
        (None, w) \<Rightarrow> (True, emit (EvCloseHandle h True) (s\<lparr>world := w\<rparr>))
      | (Some e, w) \<Rightarrow> (False, emit (EvCloseHandle h False) (s\<lparr>world := w, lastError := e\<rparr>)))"

definition OpenProcess :: "'w os \<Rightarrow> int \<Rightarrow> 'w state \<Rightarrow> HANDLE \<times> 'w state" where
  "OpenProcess os processId s =
     (case os_OpenProcess os processId (world s) of
        ((h, e), w) \<Rightarrow>
          (h, emit (EvOpenProcess processId h)
                (if h = nullptr then s\<lparr>world := w, lastError := e\<rparr> else s\<lparr>world := w\<rparr>)))"

section \<open>CreateMinidumpFolder\<close>

text \<open>
  The loop looks for the next backslash of \<^verbatim>\<open>_dumpFolder\<close>; \<open>seen\<close> holds the characters
  from \<^verbatim>\<open>start\<close> to the position reached, so at a backslash it is the source's \<^verbatim>\<open>folder\<close>.
\<close>

fun CreateMinidumpFolder_loop :: "'w os \<Rightarrow> string \<Rightarrow> string \<Rightarrow> 'w state \<Rightarrow> bool \<times> 'w state" where
  "CreateMinidumpFolder_loop os seen [] s = (True, s)"
| "CreateMinidumpFolder_loop os seen (c # rest) s =
     (if c = CHR 0x5C then
        (let folder = seen in
         if \<not> (length folder = 2 \<and> folder ! 1 = CHR '':'') then
           (let s1 = LOG [S (''Creating directory: '' @ [CHR 0x27]), S folder] s;
                (created, s2) = CreateDirectory os folder s1
            in if created = False then
                 (let err = lastError s2 in
                  if err \<noteq> ERROR_ALREADY_EXISTS
                  then (False, LOG [S (''CreateDirectory '' @ [CHR 0x27]), S folder,
                             S (CHR 0x27 # ''failed: ''), D err] s2)
                  else CreateMinidumpFolder_loop os (seen @ [c]) rest s2)
               else CreateMinidumpFolder_loop os (seen @ [c]) rest s2)
         else CreateMinidumpFolder_loop os (seen @ [c]) rest s)
      else CreateMinidumpFolder_loop os (seen @ [c]) rest s)"

definition CreateMinidumpFolder :: "'w os \<Rightarrow> 'w state \<Rightarrow> bool \<times> 'w state" where
  "CreateMinidumpFolder os s =
     (case CreateMinidumpFolder_loop os [] (g_dumpFolder s) s of
        (False, s1) \<Rightarrow> (False, s1)
      | (True, s1) \<Rightarrow> (True, LOG [S ''Created directory''] s1))"

section \<open>RemoveOldMinidumps\<close>

text \<open>
  The body of the \<^verbatim>\<open>do\<close> loop, once for each entry of the enumeration. \<open>folder\<close> is the
  source's local of that name, which points to the characters of \<^verbatim>\<open>_minidumpPattern\<close>.
  \<^verbatim>\<open>oldestFileTime\<close> is not initialised by the source; it is written at the first entry
  that is not a dot entry, where \<^verbatim>\<open>numFiles\<close> is 0, before it is ever read.
  \<^verbatim>\<open>numFiles\<close> stays below \<^verbatim>\<open>_numRetainedMinidumps\<close>, so its increment cannot overflow.
\<close>

fun RemoveOldMinidumps_loop ::
  "'w os \<Rightarrow> string \<Rightarrow> WIN32_FIND_DATA list \<Rightarrow> int \<Rightarrow> FILETIME \<Rightarrow> 'w state \<Rightarrow> bool \<times> 'w state" where
  "RemoveOldMinidumps_loop os folder [] numFiles oldestFileTime s = (True, s)"
| "RemoveOldMinidumps_loop os folder (fdFile # others) numFiles oldestFileTime s =
     (if cFileName fdFile \<noteq> ''.'' \<and> cFileName fdFile \<noteq> ''..'' then
        (let s1 = s\<lparr>g_tmpPath := folder @ cFileName fdFile\<rparr>;
             (oldestFileTime1, s2) =
               (if numFiles = 0
                then (ftLastWriteTime fdFile, s1\<lparr>g_oldestFileFullName := g_tmpPath s1\<rparr>)
                else if CompareFileTime oldestFileTime (ftLastWriteTime fdFile) = 1
                then (ftLastWriteTime fdFile, s1\<lparr>g_oldestFileFullName := g_tmpPath s1\<rparr>)
                else (oldestFileTime, s1))
         in if numFiles + 1 \<ge> g_numRetainedMinidumps s2 then
              (let (deleted, s3) = DeleteFile os (g_oldestFileFullName s2) s2
               in if \<not> deleted then
                    (let err = lastError s3
                     in (False, LOG [S ''DeleteFile failed: '', D err] s3))
                  else RemoveOldMinidumps_loop os folder others numFiles oldestFileTime1 s3)
            else RemoveOldMinidumps_loop os folder others (numFiles + 1) oldestFileTime1 s2)
      else RemoveOldMinidumps_loop os folder others numFiles oldestFileTime s)"

definition RemoveOldMinidumps :: "'w os \<Rightarrow> 'w state \<Rightarrow> bool \<times> 'w state" where
  "RemoveOldMinidumps os s =
     (let numFiles = 0;
          s1 = LOG [S ''Removing old minidumps, pattern: '', S (g_minidumpPattern s)] s;
          folder = g_minidumpPattern s1;
          (hFind, s2) = FindFirstFile os folder s1
      in case hFind of
           None \<Rightarrow>
             (let err = lastError s2
              in if err = ERROR_FILE_NOT_FOUND
                 then (True, LOG [S ''No previous dump files found''] s2)
                 else (False, LOG [S ''FindFirstFile failed: '', D err] s2))
         | Some (fdFile, others) \<Rightarrow>
             (case RemoveOldMinidumps_loop os folder (fdFile # others) numFiles 0 s2 of
                (False, s3) \<Rightarrow> (False, s3)
              | (True, s3) \<Rightarrow> (True, LOG [S ''Removed old minidumps''] s3)))"

section \<open>CreateMinidumpFileName\<close>

text \<open>
  \<^verbatim>\<open>operator<<\<close> writes a \<^verbatim>\<open>WORD\<close> in decimal. The stream \<^verbatim>\<open>_minidumpStringBuilder\<close> is a
  global that the source never empties, and \<^verbatim>\<open>str()\<close> gives all that was written to it.
\<close>

fun decimal :: "nat \<Rightarrow> string" where
  "decimal n =
     (if n < 10 then [''0123456789'' ! n]
      else decimal (n div 10) @ [''0123456789'' ! (n mod 10)])"

declare decimal.simps [simp del]

definition CreateMinidumpFileName :: "'w os \<Rightarrow> 'w state \<Rightarrow> 'w state" where
  "CreateMinidumpFileName os s =
     (let time = os_GetLocalTime os (world s);
          name = g_minidumpStringBuilder s;
          name = name @ g_dumpFolder s;
          name = name @ g_dumpName s;
          name = name @ ''_'';
          name = (if wDay time < 10 then name @ ''0'' else name);
          name = name @ decimal (unat (wDay time)) @ ''.'';
          name = (if wMonth time < 10 then name @ ''0'' else name);
          name = name @ decimal (unat (wMonth time));
          name = name @ ''.'' @ decimal (unat (wYear time));
          name = name @ '' - '' @ decimal (unat (wHour time)) @ ''_'' @
                 decimal (unat (wMinute time)) @ ''_'' @ decimal (unat (wSecond time));
          name = name @ ''.dmp'';
          s1 = s\<lparr>g_minidumpStringBuilder := name, g_minidumpFileName := name\<rparr>
      in LOG [S ''Minidump file name: '', S (g_minidumpFileName s1)] s1)"

section \<open>CreateMiniDump: the capture\<close>

text \<open>
  The overload with four parameters, in three parts: lines 217 to 257 of the source (the
  dump-writing facility is resolved and called, the file is closed), lines 198 to 215 (the
  file is named and created) and lines 184 to 196.
\<close>

definition CreateMiniDump_write :: "'w os \<Rightarrow> nat \<Rightarrow> HANDLE \<Rightarrow> int \<Rightarrow> HANDLE \<Rightarrow> 'w state \<Rightarrow> 'w state" where
  "CreateMiniDump_write os exceptionPointers processHandle processId hFile s =
     (let (dbghelp, s1) = LoadLibrary os ''DbgHelp.dll'' s
      in case dbghelp of
           None \<Rightarrow> s1
         | Some module \<Rightarrow>
             (let (miniDumpWriteDump, s2) = GetProcAddress os module ''MiniDumpWriteDump'' s1
              in if \<not> miniDumpWriteDump then s2
                 else if hFile \<noteq> nullptr \<and> hFile \<noteq> INVALID_HANDLE_VALUE then
                   (let info = \<lparr>ThreadId = os_GetCurrentThreadId os (world s2),
                                ExceptionPointers = exceptionPointers,
                                ClientPointers = True\<rparr>;
                        (rv, s3) = MiniDumpWriteDump os processHandle processId hFile
                                     (if exceptionPointers \<noteq> 0 then Some info else None) s2;
                        s4 = (if rv \<noteq> False then LOG [S ''Minidump saved''] s3
                              else LOG [S ''MiniDumpWriteDump returned FALSE, unable to write a minidump''] s3);
                        (closed, s5) = CloseHandle os hFile s4
                    in if closed = False
                       then LOG [S ''CloseHandle failed: GetLastError()='', D (lastError s5)] s5
                       else s5)
                 else s2))"

definition CreateMiniDump_file :: "'w os \<Rightarrow> nat \<Rightarrow> HANDLE \<Rightarrow> int \<Rightarrow> 'w state \<Rightarrow> 'w state" where
  "CreateMiniDump_file os exceptionPointers processHandle processId s =
     (let s1 = LOG [S ''Creating name...''] s;
          s2 = CreateMinidumpFileName os s1;
          (hFile, s3) = CreateFile os (g_minidumpFileName s2) s2
      in if hFile = INVALID_HANDLE_VALUE then
           (let err = lastError s3
            in LOG [S ''CreateFile returned INVALID_HANDLE_VALUE: GetLastError()='', D err] s3)
         else CreateMiniDump_write os exceptionPointers processHandle processId hFile s3)"

definition CreateMiniDump_capture ::
  "'w os \<Rightarrow> nat \<Rightarrow> HANDLE \<Rightarrow> int \<Rightarrow> string \<Rightarrow> 'w state \<Rightarrow> 'w state" where
  "CreateMiniDump_capture os exceptionPointers processHandle processId dumpName s =
     (let s1 = LOG [S ''Creating Mini dump...''] s;
          (folderCreated, s2) = CreateMinidumpFolder os s1
      in if folderCreated = False then s2
         else
           (let (removed, s3) = RemoveOldMinidumps os s2;
                s4 = (if removed = False
                      then LOG [S ''Failed to remove old minidumps, ignoring it...''] s3
                      else s3)
            in CreateMiniDump_file os exceptionPointers processHandle processId s4))"

text \<open>The overload with one parameter, which the fault handlers call.\<close>

definition CreateMiniDump_fault :: "'w os \<Rightarrow> nat \<Rightarrow> 'w state \<Rightarrow> 'w state" where
  "CreateMiniDump_fault os exceptionPointers s =
     (if g_collectDumps s then
        CreateMiniDump_capture os exceptionPointers (os_GetCurrentProcess os (world s))
          (os_GetCurrentProcessId os (world s)) (g_dumpName s) s
      else
        LOG [S ''NOT creating a minidump because InitDumpCollection has NOT been called (yet)''] s)"

section \<open>The exported functions\<close>

text \<open>
  \<^verbatim>\<open>InitDumpCollection\<close> takes two pointers that may be \<^verbatim>\<open>NULL\<close>. With an empty folder the
  source reads \<^verbatim>\<open>dumpFolder[dumpFolderLength-1]\<close> one code unit before the string.
\<close>

definition InitDumpCollection ::
  "'w os \<Rightarrow> int \<Rightarrow> string option \<Rightarrow> string option \<Rightarrow> 'w state \<Rightarrow> bool \<times> 'w state" where
  "InitDumpCollection os numRetainedMinidumps dumpFolder dumpName s0 =
     (let s = LOG [S ''Initializing mini dump collection...''] s0
      in if g_collectDumps s then (False, SetLastError ERROR_ACCESS_DENIED s)
         else
           (case (dumpFolder, dumpName) of
              (Some folder, Some name) \<Rightarrow>
                if numRetainedMinidumps \<le> 0 then (False, SetLastError ERROR_BAD_ARGUMENTS s)
                else
                  (let dumpFolderLength = wcslen folder
                   in if wcschr folder CHR ''/'' \<noteq> None \<or>
                         (if dumpFolderLength = 0 then os_stray os (world s)
                          else folder ! (dumpFolderLength - 1)) \<noteq> CHR 0x5C \<or>
                         os_PathIsRelative os folder = True
                      then (False, SetLastError ERROR_BAD_ARGUMENTS s)
                      else if CheckDumpNameConstraints name = False
                      then (False, SetLastError ERROR_BAD_ARGUMENTS s)
                      else
                        (let s1 = s\<lparr>g_numRetainedMinidumps := numRetainedMinidumps,
                                     g_dumpFolder := folder,
                                     g_dumpName := name\<rparr>;
                             s2 = s1\<lparr>g_minidumpPattern := g_dumpFolder s1\<rparr>;
                             s3 = s2\<lparr>g_minidumpPattern := g_minidumpPattern s2 @ g_dumpName s2\<rparr>;
                             s4 = s3\<lparr>g_minidumpPattern := g_minidumpPattern s3 @ ''*.dmp''\<rparr>;
                             s5 = LOG [S ''Mini dump collection successfully installed!''] s4
                         in (True, s5\<lparr>g_collectDumps := True\<rparr>)))
            | _ \<Rightarrow> (False, SetLastError ERROR_BAD_ARGUMENTS s)))"

text \<open>
  The exported \<^verbatim>\<open>CreateMiniDump(processId, dumpName)\<close>. Its name argument is a string:
  the source passes the pointer to \<^verbatim>\<open>wcslen\<close> without a test for \<^verbatim>\<open>NULL\<close>.
\<close>

definition CreateMiniDump :: "'w os \<Rightarrow> int \<Rightarrow> string \<Rightarrow> 'w state \<Rightarrow> bool \<times> 'w state" where
  "CreateMiniDump os processId dumpName s0 =
     (let s = LOG [S ''CreateMiniDump''] s0
      in if g_collectDumps s = False then (False, SetLastError ERROR_ACCESS_DENIED s)
         else if CheckDumpNameConstraints dumpName = False
         then (False, SetLastError ERROR_BAD_ARGUMENTS s)
         else
           (let (hProcess, s1) = OpenProcess os processId s
            in if hProcess = nullptr then (False, LOG [S ''OpenProcess failed...''] s1)
               else
                 (let s2 = CreateMiniDump_capture os 0 hProcess processId dumpName s1;
                      (closed, s3) = CloseHandle os hProcess s2
                  in (True, s3))))"

section \<open>A machine to run the program on\<close>

text \<open>
  One instance of the services, small enough to evaluate: a file system that is a list of
  directories and a list of files with their last-write times, in the order an enumeration
  delivers them; switches for the availability of DbgHelp.dll, of its entry point and for
  the outcome of the dump write; the processes that can be opened; the open handles.
  Names are compared exactly. \<^verbatim>\<open>DeleteFile\<close> and \<^verbatim>\<open>CreateFile\<close> refuse a path that holds a
  character no file name can hold, as Windows does with \<^verbatim>\<open>ERROR_INVALID_NAME\<close> (123), and a
  colon is accepted only as the second character of the path.
\<close>

record machine =
  m_dirs :: "string list"
  m_files :: "(string \<times> FILETIME) list"
  m_clock :: SYSTEMTIME
  m_filetime :: FILETIME
  m_dbghelp :: bool
  m_entry_point :: bool
  m_write_ok :: bool
  m_processes :: "int list"
  m_open :: "HANDLE list"
  m_next :: HANDLE

fun glob :: "string \<Rightarrow> string \<Rightarrow> bool" where
  "glob [] s = (s = [])"
| "glob (p # ps) s =
     (if p = CHR ''*'' then glob ps s \<or> (case s of [] \<Rightarrow> False | c # cs \<Rightarrow> glob (p # ps) cs)
      else (case s of [] \<Rightarrow> False | c # cs \<Rightarrow> (p = CHR ''?'' \<or> p = c) \<and> glob ps cs))"

definition dir_part :: "string \<Rightarrow> string" where
  "dir_part path = rev (dropWhile (\<lambda>c. c \<noteq> CHR 0x5C) (rev path))"

definition name_part :: "string \<Rightarrow> string" where
  "name_part path = rev (takeWhile (\<lambda>c. c \<noteq> CHR 0x5C) (rev path))"

definition valid_path :: "string \<Rightarrow> bool" where
  "valid_path path =
     (path \<noteq> [] \<and> CHR ''*'' \<notin> set path \<and> CHR ''?'' \<notin> set path \<and> CHR 0x22 \<notin> set path \<and>
      CHR ''/'' \<notin> set path \<and> CHR '':'' \<notin> set (take 1 path) \<and> CHR '':'' \<notin> set (drop 2 path))"

definition dump_files :: "string \<Rightarrow> machine \<Rightarrow> WIN32_FIND_DATA list" where
  "dump_files pattern w =
     map (\<lambda>(path, t). \<lparr>cFileName = name_part path, ftLastWriteTime = t\<rparr>)
       (filter (\<lambda>(path, t). dir_part path = dir_part pattern \<and>
                              glob (name_part pattern) (name_part path))
          (m_files w))"

definition m_CreateDirectory :: "string \<Rightarrow> machine \<Rightarrow> DWORD option \<times> machine" where
  "m_CreateDirectory path w =
     (if \<not> valid_path path then (Some 123, w)
      else if path \<in> set (m_dirs w) then (Some ERROR_ALREADY_EXISTS, w)
      else (None, w\<lparr>m_dirs := m_dirs w @ [path]\<rparr>))"

definition m_FindFirstFile ::
  "string \<Rightarrow> machine \<Rightarrow> (DWORD + WIN32_FIND_DATA \<times> WIN32_FIND_DATA list) \<times> machine" where
  "m_FindFirstFile pattern w =
     (case dump_files pattern w of
        [] \<Rightarrow> (Inl ERROR_FILE_NOT_FOUND, w)
      | first # others \<Rightarrow> (Inr (first, others), w))"

definition m_DeleteFile :: "string \<Rightarrow> machine \<Rightarrow> DWORD option \<times> machine" where
  "m_DeleteFile path w =
     (if \<not> valid_path path then (Some 123, w)
      else if path \<notin> set (map fst (m_files w)) then (Some ERROR_FILE_NOT_FOUND, w)
      else (None, w\<lparr>m_files := filter (\<lambda>(p, t). p \<noteq> path) (m_files w)\<rparr>))"

definition m_CreateFile :: "string \<Rightarrow> machine \<Rightarrow> (HANDLE \<times> DWORD) \<times> machine" where
  "m_CreateFile path w =
     (if \<not> valid_path path then ((INVALID_HANDLE_VALUE, 123), w)
      else if dir_part path \<notin> set (map (\<lambda>d. d @ [CHR 0x5C]) (m_dirs w))
      then ((INVALID_HANDLE_VALUE, 3), w)
      else ((m_next w, 0),
            w\<lparr>m_files := filter (\<lambda>(p, t). p \<noteq> path) (m_files w) @ [(path, m_filetime w)],
              m_open := m_open w @ [m_next w],
              m_next := m_next w + 4\<rparr>))"

definition m_CloseHandle :: "HANDLE \<Rightarrow> machine \<Rightarrow> DWORD option \<times> machine" where
  "m_CloseHandle h w =
     (if h \<in> set (m_open w) then (None, w\<lparr>m_open := removeAll h (m_open w)\<rparr>)
      else (Some 6, w))"

definition m_OpenProcess :: "int \<Rightarrow> machine \<Rightarrow> (HANDLE \<times> DWORD) \<times> machine" where
  "m_OpenProcess pid w =
     (if pid \<in> set (m_processes w)
      then ((m_next w, 0), w\<lparr>m_open := m_open w @ [m_next w], m_next := m_next w + 4\<rparr>)
      else ((nullptr, 87), w))"

definition m_PathIsRelative :: "string \<Rightarrow> bool" where
  "m_PathIsRelative path = (\<not> (take 1 path = [CHR 0x5C] \<or> take 1 (drop 1 path) = '':''))"

definition windows :: "machine os" where
  "windows =
     \<lparr>os_CreateDirectory = m_CreateDirectory,
      os_FindFirstFile = m_FindFirstFile,
      os_DeleteFile = m_DeleteFile,
      os_GetLocalTime = m_clock,
      os_CreateFile = m_CreateFile,
      os_LoadLibrary = (\<lambda>name w. (if m_dbghelp w then Some 1 else None, w)),
      os_GetProcAddress = (\<lambda>module name w. m_entry_point w),
      os_MiniDumpWriteDump = (\<lambda>hProcess pid hFile info w. (m_write_ok w, w)),
      os_CloseHandle = m_CloseHandle,
      os_OpenProcess = m_OpenProcess,
      os_GetCurrentProcess = (\<lambda>w. - 1),
      os_GetCurrentProcessId = (\<lambda>w. 4242),
      os_GetCurrentThreadId = (\<lambda>w. 77),
      os_PathIsRelative = m_PathIsRelative,
      os_stray = (\<lambda>w. CHR 0x00)\<rparr>"

text \<open>The program as it starts: the globals as their definitions initialise them.\<close>

definition start :: "'w \<Rightarrow> 'w state" where
  "start w =
     \<lparr>g_collectDumps = False, g_numRetainedMinidumps = 0, g_dateTimeBuffer = [],
      g_dumpFolder = [], g_dumpName = [], g_minidumpStringBuilder = [],
      g_minidumpFileName = [], g_minidumpPattern = [], g_tmpPath = [],
      g_oldestFileFullName = [], world = w, lastError = 0, calls = []\<rparr>"

text \<open>A machine with the folder \<^verbatim>\<open>C:\dumps\<close> and the dump files given, at 5 March 2024, 09:07:02.\<close>

definition dumps_dir :: string where
  "dumps_dir = ''C:'' @ [CHR 0x5C] @ ''dumps'' @ [CHR 0x5C]"

definition pc :: "(string \<times> FILETIME) list \<Rightarrow> machine" where
  "pc fs =
     \<lparr>m_dirs = [''C:'' @ [CHR 0x5C] @ ''dumps''],
      m_files = map (\<lambda>(n, t). (dumps_dir @ n, t)) fs,
      m_clock = \<lparr>wYear = 2024, wMonth = 3, wDay = 5, wHour = 9, wMinute = 7, wSecond = 2\<rparr>,
      m_filetime = 1000,
      m_dbghelp = True, m_entry_point = True, m_write_ok = True,
      m_processes = [1234], m_open = [], m_next = 100\<rparr>"

section \<open>Vocabulary of the properties\<close>

text \<open>
  The events a call adds to the record, the stored configuration (the flag, the retained
  count, the folder, the base name and the enumeration pattern), and the relation between
  two states that differ in no global but the two scratch paths and between which only
  the file system services and the log were used.
\<close>

definition new_events :: "'w state \<Rightarrow> 'w state \<Rightarrow> event list" where
  "new_events s s' = drop (length (calls s)) (calls s')"

definition config :: "'w state \<Rightarrow> bool \<times> int \<times> string \<times> string \<times> string" where
  "config s =
     (g_collectDumps s, g_numRetainedMinidumps s, g_dumpFolder s, g_dumpName s, g_minidumpPattern s)"

fun fs_event :: "event \<Rightarrow> bool" where
  "fs_event (Log m) = True"
| "fs_event (EvCreateDirectory p b) = True"
| "fs_event (EvFindFirstFile p b) = True"
| "fs_event (EvDeleteFile p b) = True"
| "fs_event e = False"

definition steps :: "'w state \<Rightarrow> 'w state \<Rightarrow> bool" where
  "steps s s' \<longleftrightarrow>
     config s' = config s \<and> g_minidumpStringBuilder s' = g_minidumpStringBuilder s \<and>
     g_minidumpFileName s' = g_minidumpFileName s \<and>
     (\<exists>es. calls s' = calls s @ es \<and> list_all fs_event es)"

text \<open>
  \<^verbatim>\<open>RemoveOldMinidumps\<close> passes over the two dot entries of an enumeration. \<open>oldest_of c es\<close> is
  the entry with the earliest last-write time among \<open>c\<close> and \<open>es\<close>, the earliest met when
  two times are equal.
\<close>

definition dot_entry :: "WIN32_FIND_DATA \<Rightarrow> bool" where
  "dot_entry e \<longleftrightarrow> cFileName e = ''.'' \<or> cFileName e = ''..''"

fun oldest_of :: "WIN32_FIND_DATA \<Rightarrow> WIN32_FIND_DATA list \<Rightarrow> WIN32_FIND_DATA" where
  "oldest_of c [] = c"
| "oldest_of c (e # es) = oldest_of (if ftLastWriteTime e < ftLastWriteTime c then e else c) es"

text \<open>
  The spec's words for the file name: a component is written with two digits when it has
  one; the date and time part of the name; the whole name, which follows what the stream
  held before.
\<close>

definition two_digits :: "16 word \<Rightarrow> string" where
  "two_digits w = (if w < 10 then ''0'' @ decimal (unat w) else decimal (unat w))"

definition time_stamp :: "SYSTEMTIME \<Rightarrow> string" where
  "time_stamp t =
     two_digits (wDay t) @ ''.'' @ two_digits (wMonth t) @ ''.'' @ decimal (unat (wYear t)) @
     '' - '' @ decimal (unat (wHour t)) @ ''_'' @ decimal (unat (wMinute t)) @ ''_'' @
     decimal (unat (wSecond t))"

definition built_name :: "'w os \<Rightarrow> 'w state \<Rightarrow> string" where
  "built_name os s =
     g_minidumpStringBuilder s @ g_dumpFolder s @ g_dumpName s @ ''_'' @
     time_stamp (os_GetLocalTime os (world s)) @ ''.dmp''"

text \<open>The exception parameter the capture hands to the dump writer.\<close>

definition exception_param :: "'w os \<Rightarrow> 'w \<Rightarrow> nat \<Rightarrow> MINIDUMP_EXCEPTION_INFORMATION option" where
  "exception_param os w ep =
     (if ep \<noteq> 0
      then Some \<lparr>ThreadId = os_GetCurrentThreadId os w, ExceptionPointers = ep, ClientPointers = True\<rparr>
      else None)"

text \<open>
  A process calls the exported functions and faults in some order; \<open>run\<close> is the state
  after a sequence of such calls.
\<close>

datatype api =
    Call_InitDumpCollection int "string option" "string option"
  | Call_CreateMiniDump int string
  | Fault nat

fun api_step :: "'w os \<Rightarrow> api \<Rightarrow> 'w state \<Rightarrow> 'w state" where
  "api_step os (Call_InitDumpCollection n folder name) s = snd (InitDumpCollection os n folder name s)"
| "api_step os (Call_CreateMiniDump pid name) s = snd (CreateMiniDump os pid name s)"
| "api_step os (Fault ep) s = CreateMiniDump_fault os ep s"

fun run :: "'w os \<Rightarrow> api list \<Rightarrow> 'w state \<Rightarrow> 'w state" where
  "run os [] s = s"
| "run os (c # cs) s = run os cs (api_step os c s)"

subsection \<open>States of the machine used as examples\<close>

text \<open>
  The collection initialised with two retained dumps, the folder \<^verbatim>\<open>C:\dumps\<close> and the base
  name \<^verbatim>\<open>app\<close>, over a folder that holds the files given; the same at ten o'clock; the
  program after one call of the exported \<^verbatim>\<open>CreateMiniDump\<close>, an hour later; the collection
  where DbgHelp.dll cannot be loaded; and a collection whose folder cannot be created.
\<close>

definition armed :: "int \<Rightarrow> (string \<times> FILETIME) list \<Rightarrow> machine state" where
  "armed n fs = snd (InitDumpCollection windows n (Some dumps_dir) (Some ''app'') (start (pc fs)))"

definition two_dumps :: "machine state" where
  "two_dumps = armed 2 [(''app_1.dmp'', 10), (''app_2.dmp'', 20)]"

definition three_dumps :: "machine state" where
  "three_dumps = armed 2 [(''app_1.dmp'', 10), (''app_2.dmp'', 20), (''app_3.dmp'', 30)]"

definition an_hour_later :: "machine state" where
  "an_hour_later =
     two_dumps\<lparr>world := (world two_dumps)\<lparr>m_clock :=
       \<lparr>wYear = 2024, wMonth = 3, wDay = 5, wHour = 10, wMinute = 0, wSecond = 0\<rparr>\<rparr>\<rparr>"

definition captured_once :: "machine state" where
  "captured_once =
     (let s = snd (CreateMiniDump windows 1234 ''app'' two_dumps)
      in s\<lparr>world := (world s)\<lparr>m_clock :=
           \<lparr>wYear = 2024, wMonth = 3, wDay = 5, wHour = 10, wMinute = 0, wSecond = 0\<rparr>\<rparr>\<rparr>)"

definition without_dbghelp :: "machine state" where
  "without_dbghelp = (armed 2 [])\<lparr>world := (pc [])\<lparr>m_dbghelp := False\<rparr>\<rparr>"

definition unusable_folder :: "machine state" where
  "unusable_folder =
     snd (InitDumpCollection windows 2 (Some (''C:'' @ [CHR 0x5C] @ ''a?b'' @ [CHR 0x5C]))
            (Some ''app'') (start (pc [])))"

section \<open>Properties of the string routines\<close>

lemma wcschr_found: "wcschr s c \<noteq> None \<longleftrightarrow> c \<in> set s"
  by (induction s) auto

lemma wcsstr_found: "wcsstr s needle \<noteq> None \<longleftrightarrow> (\<exists>u v. s = u @ needle @ v)"
proof (induction s)
  case Nil
  then show ?case by auto
next
  case (Cons x xs)
  show ?case
  proof (cases "take (length needle) (x # xs) = needle")
    case True
    then have "x # xs = [] @ needle @ drop (length needle) (x # xs)"
      by (metis append_Nil append_take_drop_id)
    then have "\<exists>u v. x # xs = u @ needle @ v" by blast
    with True show ?thesis by simp
  next
    case False
    have "(\<exists>u v. x # xs = u @ needle @ v) \<longleftrightarrow> (\<exists>u v. xs = u @ needle @ v)"
    proof
      assume "\<exists>u v. x # xs = u @ needle @ v"
      then obtain u v where uv: "x # xs = u @ needle @ v" by blast
      show "\<exists>u v. xs = u @ needle @ v"
      proof (cases u)
        case Nil
        with uv have "take (length needle) (x # xs) = needle" by simp
        with False show ?thesis by simp
      next
        case (Cons a u')
        with uv have "xs = u' @ needle @ v" by simp
        then show ?thesis by blast
      qed
    next
      assume "\<exists>u v. xs = u @ needle @ v"
      then obtain u v where "xs = u @ needle @ v" by blast
      then have "x # xs = (x # u) @ needle @ v" by simp
      then show "\<exists>u v. x # xs = u @ needle @ v" by blast
    qed
    with False Cons.IH show ?thesis by simp
  qed
qed

lemma wcsstr_single: "wcsstr s [c] \<noteq> None \<longleftrightarrow> c \<in> set s"
proof -
  have "(\<exists>u v. s = u @ [c] @ v) \<longleftrightarrow> c \<in> set s"
    by (auto simp: in_set_conv_decomp)
  then show ?thesis by (simp only: wcsstr_found)
qed

section \<open>What each service call leaves behind\<close>

lemma new_events_append: "calls s' = calls s @ es \<Longrightarrow> new_events s s' = es"
  by (simp add: new_events_def)

lemma calls_LOG: "calls (LOG m s) = calls s @ [Log m]"
  by (simp add: LOG_def emit_def)

lemma calls_CreateFile:
  "calls (snd (CreateFile os p s)) = calls s @ [EvCreateFile p (fst (CreateFile os p s))]"
  by (simp add: CreateFile_def emit_def split: prod.splits)

lemma calls_LoadLibrary:
  "calls (snd (LoadLibrary os n s)) = calls s @ [EvLoadLibrary n (fst (LoadLibrary os n s) \<noteq> None)]"
  by (simp add: LoadLibrary_def emit_def split: prod.splits)

lemma calls_GetProcAddress:
  "calls (snd (GetProcAddress os m n s)) = calls s @ [EvGetProcAddress n (fst (GetProcAddress os m n s))]"
  by (simp add: GetProcAddress_def emit_def Let_def)

lemma calls_MiniDumpWriteDump:
  "calls (snd (MiniDumpWriteDump os hp p hf param s)) =
     calls s @ [EvMiniDumpWriteDump hp p hf param (fst (MiniDumpWriteDump os hp p hf param s))]"
  by (simp add: MiniDumpWriteDump_def emit_def split: prod.splits)

lemma calls_CloseHandle:
  "calls (snd (CloseHandle os h s)) = calls s @ [EvCloseHandle h (fst (CloseHandle os h s))]"
  by (simp add: CloseHandle_def emit_def split: prod.splits option.splits)

lemma calls_OpenProcess:
  "calls (snd (OpenProcess os p s)) = calls s @ [EvOpenProcess p (fst (OpenProcess os p s))]"
  by (simp add: OpenProcess_def emit_def split: prod.splits)

lemma calls_DeleteFile:
  "calls (snd (DeleteFile os p s)) = calls s @ [EvDeleteFile p (fst (DeleteFile os p s))]"
  by (simp add: DeleteFile_def emit_def split: prod.splits option.splits)

lemmas calls_prims = calls_LOG calls_CreateFile calls_LoadLibrary calls_GetProcAddress
  calls_MiniDumpWriteDump calls_CloseHandle calls_OpenProcess

lemma calls_SetLastError: "calls (SetLastError e s) = calls s"
  by (simp add: SetLastError_def)

lemma lastError_SetLastError: "lastError (SetLastError e s) = e"
  by (simp add: SetLastError_def)

lemma world_LOG: "world (LOG m s) = world s"
  by (simp add: LOG_def emit_def)

lemma world_LoadLibrary: "world (snd (LoadLibrary os n s)) = snd (os_LoadLibrary os n (world s))"
  by (simp add: LoadLibrary_def emit_def split: prod.splits)

lemma world_GetProcAddress: "world (snd (GetProcAddress os m n s)) = world s"
  by (simp add: GetProcAddress_def emit_def Let_def)

lemma world_CreateFile: "world (snd (CreateFile os p s)) = snd (os_CreateFile os p (world s))"
  by (simp add: CreateFile_def emit_def split: prod.splits)

lemma fst_CreateFile: "fst (CreateFile os p s) = fst (fst (os_CreateFile os p (world s)))"
  by (simp add: CreateFile_def emit_def split: prod.splits)

lemma fst_LoadLibrary: "fst (LoadLibrary os n s) = fst (os_LoadLibrary os n (world s))"
  by (simp add: LoadLibrary_def split: prod.splits)

lemma fst_GetProcAddress: "fst (GetProcAddress os m n s) = os_GetProcAddress os m n (world s)"
  by (simp add: GetProcAddress_def Let_def)

lemma fst_OpenProcess: "fst (OpenProcess os p s) = fst (fst (os_OpenProcess os p (world s)))"
  by (simp add: OpenProcess_def split: prod.splits)

lemma globals_LOG:
  "g_collectDumps (LOG m s) = g_collectDumps s"
  "g_numRetainedMinidumps (LOG m s) = g_numRetainedMinidumps s"
  "g_dumpFolder (LOG m s) = g_dumpFolder s"
  "g_dumpName (LOG m s) = g_dumpName s"
  "g_minidumpPattern (LOG m s) = g_minidumpPattern s"
  "g_minidumpStringBuilder (LOG m s) = g_minidumpStringBuilder s"
  "g_minidumpFileName (LOG m s) = g_minidumpFileName s"
  "lastError (LOG m s) = lastError s"
  by (simp_all add: LOG_def emit_def)

lemma globals_OpenProcess:
  "g_collectDumps (snd (OpenProcess os p s)) = g_collectDumps s"
  "g_dumpFolder (snd (OpenProcess os p s)) = g_dumpFolder s"
  "g_dumpName (snd (OpenProcess os p s)) = g_dumpName s"
  "g_minidumpStringBuilder (snd (OpenProcess os p s)) = g_minidumpStringBuilder s"
  "config (snd (OpenProcess os p s)) = config s"
  by (simp_all add: OpenProcess_def emit_def config_def split: prod.splits)

lemma config_prims:
  "config (LOG m s) = config s"
  "config (SetLastError e s) = config s"
  "config (snd (CreateFile os p s)) = config s"
  "config (snd (LoadLibrary os n s)) = config s"
  "config (snd (GetProcAddress os md n s)) = config s"
  "config (snd (MiniDumpWriteDump os hp pid hf param s)) = config s"
  "config (snd (CloseHandle os h s)) = config s"
  "config (snd (OpenProcess os pid s)) = config s"
  by (simp_all add: config_def LOG_def emit_def SetLastError_def CreateFile_def LoadLibrary_def
        GetProcAddress_def MiniDumpWriteDump_def CloseHandle_def OpenProcess_def Let_def
        split: prod.splits option.splits)

section \<open>The folder and the retention step touch nothing but the file system\<close>

lemma steps_refl: "steps s s"
  by (simp add: steps_def)

lemma steps_trans: "steps s s1 \<Longrightarrow> steps s1 s2 \<Longrightarrow> steps s s2"
  unfolding steps_def by auto

lemma steps_LOG: "steps s (LOG m s)"
  by (simp add: steps_def LOG_def emit_def config_def)

lemma steps_CreateDirectory: "steps s (snd (CreateDirectory os p s))"
  by (simp add: steps_def CreateDirectory_def emit_def config_def split: prod.splits option.splits)

lemma steps_DeleteFile: "steps s (snd (DeleteFile os p s))"
  by (simp add: steps_def DeleteFile_def emit_def config_def split: prod.splits option.splits)

lemma steps_FindFirstFile: "steps s (snd (FindFirstFile os p s))"
  by (simp add: steps_def FindFirstFile_def emit_def config_def split: prod.splits sum.splits)

lemma steps_scratch:
  "steps s (s\<lparr>g_tmpPath := t\<rparr>)" "steps s (s\<lparr>g_oldestFileFullName := t\<rparr>)"
  by (simp_all add: steps_def config_def)

lemma steps_folder_loop: "steps s (snd (CreateMinidumpFolder_loop os seen path s))"
proof (induction path arbitrary: seen s)
  case Nil
  show ?case by (simp add: steps_refl)
next
  case (Cons c rest)
  show ?case
  proof (cases "c = CHR 0x5C \<and> \<not> (length seen = 2 \<and> seen ! 1 = CHR '':'')")
    case False
    then have "CreateMinidumpFolder_loop os seen (c # rest) s =
               CreateMinidumpFolder_loop os (seen @ [c]) rest s"
      by auto
    then show ?thesis by (simp only: Cons.IH)
  next
    case True
    define s1 where "s1 = LOG [S (''Creating directory: '' @ [CHR 0x27]), S seen] s"
    obtain created s2 where cd: "CreateDirectory os seen s1 = (created, s2)"
      by (cases "CreateDirectory os seen s1")
    have "steps s1 (snd (CreateDirectory os seen s1))" by (rule steps_CreateDirectory)
    with cd have "steps s1 s2" by simp
    then have s2: "steps s s2"
      unfolding s1_def by (rule steps_trans [OF steps_LOG])
    show ?thesis
    proof (cases "created = False \<and> lastError s2 \<noteq> ERROR_ALREADY_EXISTS")
      case True
      with \<open>c = CHR 0x5C \<and> \<not> (length seen = 2 \<and> seen ! 1 = CHR '':'')\<close> cd
      have "snd (CreateMinidumpFolder_loop os seen (c # rest) s) =
            LOG [S (''CreateDirectory '' @ [CHR 0x27]), S seen, S (CHR 0x27 # ''failed: ''),
                 D (lastError s2)] s2"
        by (simp add: s1_def Let_def)
      then show ?thesis
        using steps_trans [OF s2 steps_LOG] by simp
    next
      case False
      with \<open>c = CHR 0x5C \<and> \<not> (length seen = 2 \<and> seen ! 1 = CHR '':'')\<close> cd
      have "CreateMinidumpFolder_loop os seen (c # rest) s =
            CreateMinidumpFolder_loop os (seen @ [c]) rest s2"
        by (auto simp: s1_def Let_def)
      then show ?thesis
        using steps_trans [OF s2 Cons.IH] by simp
    qed
  qed
qed

lemma steps_CreateMinidumpFolder: "steps s (snd (CreateMinidumpFolder os s))"
proof -
  have l: "steps s (snd (CreateMinidumpFolder_loop os [] (g_dumpFolder s) s))"
    by (rule steps_folder_loop)
  show ?thesis
  proof (cases "CreateMinidumpFolder_loop os [] (g_dumpFolder s) s")
    case (Pair ok s1)
    with l have "steps s s1" by simp
    with Pair show ?thesis
      by (cases ok) (simp_all add: CreateMinidumpFolder_def steps_trans [OF _ steps_LOG])
  qed
qed

lemma steps_retention_loop:
  "steps s (snd (RemoveOldMinidumps_loop os folder entries numFiles oldestFileTime s))"
proof (induction entries arbitrary: numFiles oldestFileTime s)
  case Nil
  show ?case by (simp add: steps_refl)
next
  case (Cons fdFile others)
  let ?tail = "\<lambda>t1 s2.
    if numFiles + 1 \<ge> g_numRetainedMinidumps s2 then
      (let (deleted, s3) = DeleteFile os (g_oldestFileFullName s2) s2
       in if \<not> deleted then
            (let err = lastError s3 in (False, LOG [S ''DeleteFile failed: '', D err] s3))
          else RemoveOldMinidumps_loop os folder others numFiles t1 s3)
    else RemoveOldMinidumps_loop os folder others (numFiles + 1) t1 s2"
  have tail: "steps s (snd (?tail t1 s2))" if s2: "steps s s2" for t1 s2
  proof -
    obtain deleted s3 where del: "DeleteFile os (g_oldestFileFullName s2) s2 = (deleted, s3)"
      by (cases "DeleteFile os (g_oldestFileFullName s2) s2")
    have "steps s2 (snd (DeleteFile os (g_oldestFileFullName s2) s2))"
      by (rule steps_DeleteFile)
    with del have "steps s2 s3" by simp
    with s2 have s3: "steps s s3" by (rule steps_trans)
    show ?thesis
      using steps_trans [OF s3 steps_LOG] steps_trans [OF s3 Cons.IH] steps_trans [OF s2 Cons.IH]
      by (simp add: del Let_def)
  qed
  let ?p = "folder @ cFileName fdFile"
  show ?case
  proof (cases "cFileName fdFile \<noteq> ''.'' \<and> cFileName fdFile \<noteq> ''..''")
    case False
    then have "RemoveOldMinidumps_loop os folder (fdFile # others) numFiles oldestFileTime s =
               RemoveOldMinidumps_loop os folder others numFiles oldestFileTime s"
      by auto
    then show ?thesis by (simp only: Cons.IH)
  next
    case True
    show ?thesis
    proof (cases "numFiles = 0 \<or> CompareFileTime oldestFileTime (ftLastWriteTime fdFile) = 1")
      case upd: True
      have "RemoveOldMinidumps_loop os folder (fdFile # others) numFiles oldestFileTime s =
            ?tail (ftLastWriteTime fdFile) (s\<lparr>g_tmpPath := ?p, g_oldestFileFullName := ?p\<rparr>)"
        using True upd by (auto simp: Let_def)
      moreover have "steps s (s\<lparr>g_tmpPath := ?p, g_oldestFileFullName := ?p\<rparr>)"
        by (simp add: steps_def config_def)
      ultimately show ?thesis by (simp only: tail)
    next
      case keep: False
      have "RemoveOldMinidumps_loop os folder (fdFile # others) numFiles oldestFileTime s =
            ?tail oldestFileTime (s\<lparr>g_tmpPath := ?p\<rparr>)"
        using True keep by (auto simp: Let_def)
      moreover have "steps s (s\<lparr>g_tmpPath := ?p\<rparr>)"
        by (simp add: steps_def config_def)
      ultimately show ?thesis by (simp only: tail)
    qed
  qed
qed

lemma steps_RemoveOldMinidumps: "steps s (snd (RemoveOldMinidumps os s))"
proof -
  define s1 where "s1 = LOG [S ''Removing old minidumps, pattern: '', S (g_minidumpPattern s)] s"
  obtain hFind s2 where ff: "FindFirstFile os (g_minidumpPattern s1) s1 = (hFind, s2)"
    by (cases "FindFirstFile os (g_minidumpPattern s1) s1")
  have "steps s1 (snd (FindFirstFile os (g_minidumpPattern s1) s1))"
    by (rule steps_FindFirstFile)
  with ff have "steps s1 s2" by simp
  then have s2: "steps s s2"
    unfolding s1_def by (rule steps_trans [OF steps_LOG])
  show ?thesis
  proof (cases hFind)
    case None
    with ff show ?thesis
      using steps_trans [OF s2 steps_LOG]
      by (simp add: RemoveOldMinidumps_def Let_def s1_def [symmetric])
  next
    case (Some found)
    obtain fdFile others where found: "found = (fdFile, others)" by (cases found)
    obtain ok s3 where
      loop: "RemoveOldMinidumps_loop os (g_minidumpPattern s1) (fdFile # others) 0 0 s2 = (ok, s3)"
      by (cases "RemoveOldMinidumps_loop os (g_minidumpPattern s1) (fdFile # others) 0 0 s2")
    have "steps s2
            (snd (RemoveOldMinidumps_loop os (g_minidumpPattern s1) (fdFile # others) 0 0 s2))"
      by (rule steps_retention_loop)
    with loop have "steps s2 s3" by simp
    with s2 have s3: "steps s s3" by (rule steps_trans)
    from ff Some found loop show ?thesis
      using s3 steps_trans [OF s3 steps_LOG]
      by (cases ok) (simp_all add: RemoveOldMinidumps_def Let_def s1_def [symmetric])
  qed
qed

lemma steps_calls: "steps s s' \<Longrightarrow> \<exists>es. calls s' = calls s @ es"
  by (auto simp: steps_def)

lemma steps_events:
  "steps s s' \<Longrightarrow> \<exists>es. calls s' = calls s @ es \<and> list_all fs_event es"
  by (simp add: steps_def)

lemma steps_config: "steps s s' \<Longrightarrow> config s' = config s"
  by (simp add: steps_def)

lemma steps_built_name:
  "steps s s' \<Longrightarrow> \<exists>t. built_name os s' =
     g_minidumpStringBuilder s @ g_dumpFolder s @ g_dumpName s @ ''_'' @ time_stamp t @ ''.dmp''"
  by (auto simp: steps_def built_name_def config_def)

lemma fs_event_only:
  assumes "list_all fs_event es"
  shows "EvCreateFile n h \<notin> set es" "EvMiniDumpWriteDump hp p hf param rv \<notin> set es"
    "EvGetProcAddress f b \<notin> set es" "EvCloseHandle h c \<notin> set es"
  using assms by (auto simp: list_all_iff)

section \<open>The retention loop\<close>

lemma oldest_of_member: "oldest_of c es \<in> set (c # es)"
  by (induction es arbitrary: c) auto

lemma oldest_of_least_aux:
  "ftLastWriteTime (oldest_of c es) \<le> ftLastWriteTime c \<and>
   (\<forall>e \<in> set es. ftLastWriteTime (oldest_of c es) \<le> ftLastWriteTime e)"
proof (induction es arbitrary: c)
  case Nil
  show ?case by simp
next
  case (Cons e es)
  let ?c = "if ftLastWriteTime e < ftLastWriteTime c then e else c"
  from Cons.IH [of ?c] have
    a: "ftLastWriteTime (oldest_of ?c es) \<le> ftLastWriteTime ?c"
    and b: "\<forall>x \<in> set es. ftLastWriteTime (oldest_of ?c es) \<le> ftLastWriteTime x"
    by simp_all
  have "ftLastWriteTime ?c \<le> ftLastWriteTime c" "ftLastWriteTime ?c \<le> ftLastWriteTime e"
    by auto
  with a have "ftLastWriteTime (oldest_of ?c es) \<le> ftLastWriteTime c"
    "ftLastWriteTime (oldest_of ?c es) \<le> ftLastWriteTime e"
    by (blast intro: order_trans)+
  with b show ?case by simp
qed

lemma CompareFileTime_later: "CompareFileTime a b = 1 \<longleftrightarrow> b < a"
  by (auto simp: CompareFileTime_def)

lemma loop_skips_dots:
  "RemoveOldMinidumps_loop os folder es numFiles t s =
   RemoveOldMinidumps_loop os folder (filter (\<lambda>e. \<not> dot_entry e) es) numFiles t s"
proof (induction es arbitrary: numFiles t s)
  case Nil
  show ?case by simp
next
  case (Cons e es)
  show ?case
  proof (cases "dot_entry e")
    case True
    then show ?thesis using Cons.IH by (auto simp: dot_entry_def)
  next
    case False
    then have nd: "cFileName e \<noteq> ''.'' \<and> cFileName e \<noteq> ''..''" by (simp add: dot_entry_def)
    from False have f: "filter (\<lambda>e. \<not> dot_entry e) (e # es) = e # filter (\<lambda>e. \<not> dot_entry e) es"
      by simp
    show ?thesis
      unfolding f by (simp only: RemoveOldMinidumps_loop.simps(2) Cons.IH [symmetric])
  qed
qed

lemma loop_step:
  assumes "\<not> dot_entry e"
  shows "RemoveOldMinidumps_loop os folder (e # es) numFiles t s =
    (let upd = (numFiles = 0 \<or> ftLastWriteTime e < t);
         t1 = (if upd then ftLastWriteTime e else t);
         s2 = (if upd then s\<lparr>g_tmpPath := folder @ cFileName e,
                              g_oldestFileFullName := folder @ cFileName e\<rparr>
               else s\<lparr>g_tmpPath := folder @ cFileName e\<rparr>)
     in if g_numRetainedMinidumps s \<le> numFiles + 1 then
          (case DeleteFile os (g_oldestFileFullName s2) s2 of
             (deleted, s3) \<Rightarrow>
               if \<not> deleted
               then (let err = lastError s3 in (False, LOG [S ''DeleteFile failed: '', D err] s3))
               else RemoveOldMinidumps_loop os folder es numFiles t1 s3)
        else RemoveOldMinidumps_loop os folder es (numFiles + 1) t1 s2)"
  using assms by (auto simp: dot_entry_def Let_def CompareFileTime_later)

lemma loop_below_quota:
  assumes "\<forall>e \<in> set es. \<not> dot_entry e"
    and "numFiles + int (length es) < g_numRetainedMinidumps s"
  shows "\<exists>tp old. RemoveOldMinidumps_loop os folder es numFiles t s =
                    (True, s\<lparr>g_tmpPath := tp, g_oldestFileFullName := old\<rparr>)"
  using assms
proof (induction es arbitrary: numFiles t s)
  case Nil
  have "s = s\<lparr>g_tmpPath := g_tmpPath s, g_oldestFileFullName := g_oldestFileFullName s\<rparr>"
    by simp
  then show ?case by (metis RemoveOldMinidumps_loop.simps(1))
next
  case (Cons e es)
  from Cons.prems have nd: "\<not> dot_entry e" and rest: "\<forall>e \<in> set es. \<not> dot_entry e"
    and below: "\<not> g_numRetainedMinidumps s \<le> numFiles + 1"
    and below': "(numFiles + 1) + int (length es) < g_numRetainedMinidumps s"
    by auto
  let ?p = "folder @ cFileName e"
  show ?case
  proof (cases "numFiles = 0 \<or> ftLastWriteTime e < t")
    case True
    let ?s2 = "s\<lparr>g_tmpPath := ?p, g_oldestFileFullName := ?p\<rparr>"
    from below' have "(numFiles + 1) + int (length es) < g_numRetainedMinidumps ?s2" by simp
    from Cons.IH [OF rest this, of "ftLastWriteTime e"] obtain tp old where
      "RemoveOldMinidumps_loop os folder es (numFiles + 1) (ftLastWriteTime e) ?s2 =
         (True, ?s2\<lparr>g_tmpPath := tp, g_oldestFileFullName := old\<rparr>)"
      by blast
    with True below have "RemoveOldMinidumps_loop os folder (e # es) numFiles t s =
         (True, s\<lparr>g_tmpPath := tp, g_oldestFileFullName := old\<rparr>)"
      by (simp add: loop_step [OF nd] Let_def del: RemoveOldMinidumps_loop.simps)
    then show ?thesis by blast
  next
    case False
    let ?s2 = "s\<lparr>g_tmpPath := ?p\<rparr>"
    from below' have "(numFiles + 1) + int (length es) < g_numRetainedMinidumps ?s2" by simp
    from Cons.IH [OF rest this, of t] obtain tp old where
      "RemoveOldMinidumps_loop os folder es (numFiles + 1) t ?s2 =
         (True, ?s2\<lparr>g_tmpPath := tp, g_oldestFileFullName := old\<rparr>)"
      by blast
    with False below have "RemoveOldMinidumps_loop os folder (e # es) numFiles t s =
         (True, s\<lparr>g_tmpPath := tp, g_oldestFileFullName := old\<rparr>)"
      by (simp add: loop_step [OF nd] Let_def del: RemoveOldMinidumps_loop.simps)
    then show ?thesis by blast
  qed
qed

lemma loop_first_delete:
  assumes "\<forall>e \<in> set es. \<not> dot_entry e"
    and "0 \<le> numFiles \<and> numFiles < g_numRetainedMinidumps s"
    and "g_numRetainedMinidumps s \<le> numFiles + int (length es)"
    and "numFiles \<noteq> 0 \<longrightarrow> t = ftLastWriteTime c \<and> g_oldestFileFullName s = folder @ cFileName c"
  shows "\<exists>b rest. calls (snd (RemoveOldMinidumps_loop os folder es numFiles t s)) =
           calls s @ EvDeleteFile
             (folder @ cFileName
                (let first = take (nat (g_numRetainedMinidumps s - numFiles)) es
                 in if numFiles = 0 then oldest_of (hd first) (tl first) else oldest_of c first)) b # rest"
  using assms
proof (induction es arbitrary: numFiles t s c)
  case Nil
  then show ?case by simp
next
  case (Cons e es)
  let ?N = "g_numRetainedMinidumps s"
  from Cons.prems have nd: "\<not> dot_entry e" and rest: "\<forall>e \<in> set es. \<not> dot_entry e" by auto
  let ?p = "folder @ cFileName e"
  let ?upd = "numFiles = 0 \<or> ftLastWriteTime e < t"
  let ?c1 = "if ?upd then e else c"
  let ?t1 = "if ?upd then ftLastWriteTime e else t"
  let ?s2 = "if ?upd then s\<lparr>g_tmpPath := ?p, g_oldestFileFullName := ?p\<rparr> else s\<lparr>g_tmpPath := ?p\<rparr>"
  have t1: "?t1 = ftLastWriteTime ?c1" using Cons.prems(4) by auto
  have old: "g_oldestFileFullName ?s2 = folder @ cFileName ?c1" using Cons.prems(4) by auto
  have N2: "g_numRetainedMinidumps ?s2 = ?N" by simp
  have c2: "calls ?s2 = calls s" by simp
  from Cons.prems(2) have nonneg: "0 \<le> numFiles" and less: "numFiles < ?N" by simp_all
  have "nat (?N - numFiles) = Suc (nat (?N - (numFiles + 1)))"
    using less by simp
  then have k: "take (nat (?N - numFiles)) (e # es) = e # take (nat (?N - (numFiles + 1))) es"
    by (simp only: take_Suc_Cons)
  have pick: "(if numFiles = 0 then oldest_of e xs else oldest_of c (e # xs)) = oldest_of ?c1 xs" for xs
    using Cons.prems(4) by auto
  have cand: "(let first = take (nat (?N - numFiles)) (e # es)
               in if numFiles = 0 then oldest_of (hd first) (tl first) else oldest_of c first) =
              oldest_of ?c1 (take (nat (?N - (numFiles + 1))) es)"
    by (simp only: k Let_def list.sel pick)
  show ?case
  proof (cases "?N \<le> numFiles + 1")
    case True
    obtain deleted s3 where del: "DeleteFile os (g_oldestFileFullName ?s2) ?s2 = (deleted, s3)"
      by (cases "DeleteFile os (g_oldestFileFullName ?s2) ?s2")
    from calls_DeleteFile [of os "g_oldestFileFullName ?s2" ?s2] del
    have c3: "calls s3 = calls s @ [EvDeleteFile (folder @ cFileName ?c1) deleted]"
      by (simp only: old c2 fst_conv snd_conv)
    have "\<exists>more. calls (snd (RemoveOldMinidumps_loop os folder es numFiles ?t1 s3)) = calls s3 @ more"
      by (rule steps_calls [OF steps_retention_loop])
    then have "\<exists>more. calls (snd (if \<not> deleted
              then (let err = lastError s3 in (False, LOG [S ''DeleteFile failed: '', D err] s3))
              else RemoveOldMinidumps_loop os folder es numFiles ?t1 s3)) = calls s3 @ more"
      by (simp add: calls_LOG)
    then obtain more where
      "calls (snd (RemoveOldMinidumps_loop os folder (e # es) numFiles t s)) = calls s3 @ more"
      using True del
      by (auto simp add: loop_step [OF nd] Let_def simp del: RemoveOldMinidumps_loop.simps)
    then have "calls (snd (RemoveOldMinidumps_loop os folder (e # es) numFiles t s)) =
      calls s @ EvDeleteFile (folder @ cFileName ?c1) deleted # more"
      by (simp only: c3 append_assoc append_Cons append_Nil)
    moreover from True have "nat (?N - (numFiles + 1)) = 0" by simp
    then have "oldest_of ?c1 (take (nat (?N - (numFiles + 1))) es) = ?c1" by simp
    ultimately show ?thesis
      by (simp only: cand) blast
  next
    case False
    with nonneg have below: "0 \<le> numFiles + 1 \<and> numFiles + 1 < g_numRetainedMinidumps ?s2" by simp
    from Cons.prems(3) have enough: "g_numRetainedMinidumps ?s2 \<le> (numFiles + 1) + int (length es)"
      by simp
    have inv: "numFiles + 1 \<noteq> 0 \<longrightarrow>
        ?t1 = ftLastWriteTime ?c1 \<and> g_oldestFileFullName ?s2 = folder @ cFileName ?c1"
      using t1 old by blast
    from Cons.IH [OF rest below enough inv] obtain b more where
      ih: "calls (snd (RemoveOldMinidumps_loop os folder es (numFiles + 1) ?t1 ?s2)) =
        calls ?s2 @ EvDeleteFile
          (folder @ cFileName
             (let first = take (nat (g_numRetainedMinidumps ?s2 - (numFiles + 1))) es
              in if numFiles + 1 = 0 then oldest_of (hd first) (tl first) else oldest_of ?c1 first)) b # more"
      by blast
    from nonneg have pos: "numFiles + 1 \<noteq> 0" by simp
    have tidy: "(let first = take (nat (g_numRetainedMinidumps ?s2 - (numFiles + 1))) es
              in if numFiles + 1 = 0 then oldest_of (hd first) (tl first) else oldest_of ?c1 first) =
              oldest_of ?c1 (take (nat (?N - (numFiles + 1))) es)"
      using pos by (simp only: Let_def N2 if_False)
    have eq: "RemoveOldMinidumps_loop os folder (e # es) numFiles t s =
          RemoveOldMinidumps_loop os folder es (numFiles + 1) ?t1 ?s2"
      using False by (simp add: loop_step [OF nd] Let_def del: RemoveOldMinidumps_loop.simps)
    from ih have "calls (snd (RemoveOldMinidumps_loop os folder (e # es) numFiles t s)) =
        calls s @ EvDeleteFile (folder @ cFileName (oldest_of ?c1 (take (nat (?N - (numFiles + 1))) es))) b # more"
      by (simp only: eq tidy c2)
    then show ?thesis
      by (simp only: cand) blast
  qed
qed

lemma RemoveOldMinidumps_found:
  assumes "os_FindFirstFile os (g_minidumpPattern s) (world s) = (Inr (fdFile, others), w)"
  shows "RemoveOldMinidumps os s =
     (case RemoveOldMinidumps_loop os (g_minidumpPattern s) (fdFile # others) 0 0
             (s\<lparr>world := w,
                calls := calls s @ [Log [S ''Removing old minidumps, pattern: '', S (g_minidumpPattern s)],
                                    EvFindFirstFile (g_minidumpPattern s) True]\<rparr>) of
        (False, s3) \<Rightarrow> (False, s3)
      | (True, s3) \<Rightarrow> (True, LOG [S ''Removed old minidumps''] s3))"
  using assms
  by (simp add: RemoveOldMinidumps_def FindFirstFile_def LOG_def emit_def Let_def
        del: RemoveOldMinidumps_loop.simps)

text \<open>
  Whatever the services do: when the enumeration delivers fewer entries than the retained
  count \<open>N\<close>, dot entries apart, the routine returns \<^verbatim>\<open>TRUE\<close> and asks for no deletion; when it
  delivers \<open>N\<close> entries or more, its first request after the enumeration is the deletion of
  the enumeration pattern followed by the name of the entry with the earliest last-write
  time among the first \<open>N\<close>.
\<close>

lemma RemoveOldMinidumps_first_deletion:
  assumes found: "os_FindFirstFile os (g_minidumpPattern s) (world s) = (Inr (fdFile, others), w)"
    and files: "files = filter (\<lambda>e. \<not> dot_entry e) (fdFile # others)"
    and N: "N = g_numRetainedMinidumps s"
  shows "(int (length files) < N \<longrightarrow>
           fst (RemoveOldMinidumps os s) = True \<and>
           world (snd (RemoveOldMinidumps os s)) = w \<and>
           new_events s (snd (RemoveOldMinidumps os s)) =
             [Log [S ''Removing old minidumps, pattern: '', S (g_minidumpPattern s)],
              EvFindFirstFile (g_minidumpPattern s) True, Log [S ''Removed old minidumps'']]) \<and>
         (0 < N \<and> N \<le> int (length files) \<longrightarrow>
           (\<exists>c b rest.
              c \<in> set (take (nat N) files) \<and>
              (\<forall>e \<in> set (take (nat N) files). ftLastWriteTime c \<le> ftLastWriteTime e) \<and>
              new_events s (snd (RemoveOldMinidumps os s)) =
                [Log [S ''Removing old minidumps, pattern: '', S (g_minidumpPattern s)],
                 EvFindFirstFile (g_minidumpPattern s) True,
                 EvDeleteFile (g_minidumpPattern s @ cFileName c) b] @ rest))"
proof (intro conjI impI)
  let ?pat = "g_minidumpPattern s"
  let ?s2 = "s\<lparr>world := w,
               calls := calls s @ [Log [S ''Removing old minidumps, pattern: '', S ?pat],
                                   EvFindFirstFile ?pat True]\<rparr>"
  have nd: "\<forall>e \<in> set files. \<not> dot_entry e" by (simp add: files)
  have skip: "RemoveOldMinidumps_loop os ?pat (fdFile # others) 0 0 ?s2 =
              RemoveOldMinidumps_loop os ?pat files 0 0 ?s2"
    unfolding files by (rule loop_skips_dots)
  {
    assume "int (length files) < N"
    then have "0 + int (length files) < g_numRetainedMinidumps ?s2" by (simp add: N)
    from loop_below_quota [OF nd this, of os ?pat 0] obtain tp old where
      l: "RemoveOldMinidumps_loop os ?pat files 0 0 ?s2 =
         (True, ?s2\<lparr>g_tmpPath := tp, g_oldestFileFullName := old\<rparr>)"
      by blast
    have r: "RemoveOldMinidumps os s =
        (True, LOG [S ''Removed old minidumps''] (?s2\<lparr>g_tmpPath := tp, g_oldestFileFullName := old\<rparr>))"
      unfolding RemoveOldMinidumps_found [OF found] skip l by simp
    show "fst (RemoveOldMinidumps os s) = True" by (simp add: r)
    show "world (snd (RemoveOldMinidumps os s)) = w" by (simp add: r world_LOG)
    show "new_events s (snd (RemoveOldMinidumps os s)) =
             [Log [S ''Removing old minidumps, pattern: '', S ?pat],
              EvFindFirstFile ?pat True, Log [S ''Removed old minidumps'']]"
      by (simp add: r new_events_def calls_LOG)
  }
  {
    assume "0 < N \<and> N \<le> int (length files)"
    then have pos: "0 < N" and enough: "N \<le> int (length files)" by simp_all
    let ?first = "take (nat N) files"
    have ne: "?first \<noteq> []" using pos enough by auto
    have split: "hd ?first # tl ?first = ?first"
      using ne by (rule list.collapse)
    let ?c = "oldest_of (hd ?first) (tl ?first)"
    have a1: "0 \<le> (0::int) \<and> 0 < g_numRetainedMinidumps ?s2" using pos by (simp add: N)
    have a2: "g_numRetainedMinidumps ?s2 \<le> 0 + int (length files)" using enough by (simp add: N)
    have a3: "(0::int) \<noteq> 0 \<longrightarrow> (0::FILETIME) = ftLastWriteTime fdFile \<and>
              g_oldestFileFullName ?s2 = ?pat @ cFileName fdFile"
      by simp
    from loop_first_delete [OF nd a1 a2 a3, of os] obtain b rest where
      l: "calls (snd (RemoveOldMinidumps_loop os ?pat files 0 0 ?s2)) =
            calls ?s2 @ EvDeleteFile (?pat @ cFileName ?c) b # rest"
      by (auto simp: Let_def N)
    obtain ok s3 where loop: "RemoveOldMinidumps_loop os ?pat files 0 0 ?s2 = (ok, s3)"
      by (cases "RemoveOldMinidumps_loop os ?pat files 0 0 ?s2")
    with l have c3: "calls s3 = calls ?s2 @ EvDeleteFile (?pat @ cFileName ?c) b # rest" by simp
    have "\<exists>rest'. calls (snd (RemoveOldMinidumps os s)) =
                   calls ?s2 @ EvDeleteFile (?pat @ cFileName ?c) b # rest'"
      unfolding RemoveOldMinidumps_found [OF found] skip loop
      using c3 by (cases ok) (simp_all add: calls_LOG)
    then obtain rest' where
      "new_events s (snd (RemoveOldMinidumps os s)) =
         [Log [S ''Removing old minidumps, pattern: '', S ?pat], EvFindFirstFile ?pat True,
          EvDeleteFile (?pat @ cFileName ?c) b] @ rest'"
      by (auto simp: new_events_def)
    moreover have "?c \<in> set (hd ?first # tl ?first)" by (rule oldest_of_member)
    then have "?c \<in> set ?first" by (simp only: split)
    moreover have "\<forall>e \<in> set (hd ?first # tl ?first). ftLastWriteTime ?c \<le> ftLastWriteTime e"
      using oldest_of_least_aux [of "hd ?first" "tl ?first"] by simp
    then have "\<forall>e \<in> set ?first. ftLastWriteTime ?c \<le> ftLastWriteTime e"
      by (simp only: split)
    ultimately show "\<exists>c b rest.
              c \<in> set (take (nat N) files) \<and>
              (\<forall>e \<in> set (take (nat N) files). ftLastWriteTime c \<le> ftLastWriteTime e) \<and>
              new_events s (snd (RemoveOldMinidumps os s)) =
                [Log [S ''Removing old minidumps, pattern: '', S ?pat],
                 EvFindFirstFile ?pat True,
                 EvDeleteFile (?pat @ cFileName c) b] @ rest"
      by blast
  }
qed

section \<open>The file name\<close>

lemma decimal_digit: "n < 10 \<Longrightarrow> decimal n = [''0123456789'' ! n]"
  by (simp add: decimal.simps)

lemma decimal_two: "10 \<le> n \<Longrightarrow> n < 100 \<Longrightarrow> length (decimal n) = 2"
proof -
  assume a: "10 \<le> n" "n < 100"
  then have "n div 10 < 10" by simp
  then have "length (decimal (n div 10)) = 1" by (simp add: decimal_digit)
  moreover from a have "decimal n = decimal (n div 10) @ [''0123456789'' ! (n mod 10)]"
    by (subst decimal.simps) simp
  ultimately show ?thesis by simp
qed

lemma CreateMinidumpFileName_result:
  "CreateMinidumpFileName os s =
     LOG [S ''Minidump file name: '', S (built_name os s)]
       (s\<lparr>g_minidumpStringBuilder := built_name os s, g_minidumpFileName := built_name os s\<rparr>)"
  by (simp add: CreateMinidumpFileName_def built_name_def time_stamp_def two_digits_def Let_def)

lemma built_name_LOG: "built_name os (LOG m s) = built_name os s"
  by (simp add: built_name_def LOG_def emit_def)

section \<open>The events of a capture\<close>

lemmas write_simps = CreateMiniDump_write_def calls_prims world_LoadLibrary world_GetProcAddress
  fst_GetProcAddress fst_LoadLibrary Let_def split_beta

lemma write_no_library:
  "fst (os_LoadLibrary os ''DbgHelp.dll'' (world s)) = None \<Longrightarrow>
   calls (CreateMiniDump_write os ep ph pid hFile s) = calls s @ [EvLoadLibrary ''DbgHelp.dll'' False]"
  by (simp add: write_simps)

lemma write_no_entry:
  "fst (os_LoadLibrary os ''DbgHelp.dll'' (world s)) = Some m \<Longrightarrow>
   \<not> os_GetProcAddress os m ''MiniDumpWriteDump'' (snd (os_LoadLibrary os ''DbgHelp.dll'' (world s))) \<Longrightarrow>
   calls (CreateMiniDump_write os ep ph pid hFile s) =
     calls s @ [EvLoadLibrary ''DbgHelp.dll'' True, EvGetProcAddress ''MiniDumpWriteDump'' False]"
  by (simp add: write_simps)

lemma write_no_file:
  "fst (os_LoadLibrary os ''DbgHelp.dll'' (world s)) = Some m \<Longrightarrow>
   os_GetProcAddress os m ''MiniDumpWriteDump'' (snd (os_LoadLibrary os ''DbgHelp.dll'' (world s))) \<Longrightarrow>
   hFile = nullptr \<or> hFile = INVALID_HANDLE_VALUE \<Longrightarrow>
   calls (CreateMiniDump_write os ep ph pid hFile s) =
     calls s @ [EvLoadLibrary ''DbgHelp.dll'' True, EvGetProcAddress ''MiniDumpWriteDump'' True]"
  by (auto simp add: write_simps)

lemma write_done:
  assumes "fst (os_LoadLibrary os ''DbgHelp.dll'' (world s)) = Some m"
    and "os_GetProcAddress os m ''MiniDumpWriteDump'' (snd (os_LoadLibrary os ''DbgHelp.dll'' (world s)))"
    and "hFile \<noteq> nullptr" and "hFile \<noteq> INVALID_HANDLE_VALUE"
  shows "\<exists>rv msg b tl.
     calls (CreateMiniDump_write os ep ph pid hFile s) =
       calls s @ [EvLoadLibrary ''DbgHelp.dll'' True, EvGetProcAddress ''MiniDumpWriteDump'' True,
                  EvMiniDumpWriteDump ph pid hFile
                    (exception_param os (snd (os_LoadLibrary os ''DbgHelp.dll'' (world s))) ep) rv,
                  Log msg, EvCloseHandle hFile b] @ tl \<and>
     (tl = [] \<or> (\<exists>x. tl = [Log x]))"
  using assms by (simp add: write_simps exception_param_def) blast

lemma write_trace:
  "\<exists>es. calls (CreateMiniDump_write os ep ph pid hFile s) = calls s @ es \<and>
     (\<forall>n h. EvCreateFile n h \<notin> set es) \<and>
     (\<forall>hp p hf param rv. EvMiniDumpWriteDump hp p hf param rv \<in> set es \<longrightarrow>
        hp = ph \<and> p = pid \<and> hf = hFile \<and>
        param = exception_param os (snd (os_LoadLibrary os ''DbgHelp.dll'' (world s))) ep) \<and>
     (hFile \<noteq> nullptr \<and> hFile \<noteq> INVALID_HANDLE_VALUE \<and>
      EvGetProcAddress ''MiniDumpWriteDump'' True \<in> set es \<longrightarrow>
        (\<exists>param rv b. EvMiniDumpWriteDump ph pid hFile param rv \<in> set es \<and>
                       EvCloseHandle hFile b \<in> set es))"
proof (cases "fst (os_LoadLibrary os ''DbgHelp.dll'' (world s))")
  case None
  from write_no_library [OF this] show ?thesis by simp
next
  case (Some m)
  show ?thesis
  proof (cases "os_GetProcAddress os m ''MiniDumpWriteDump''
                  (snd (os_LoadLibrary os ''DbgHelp.dll'' (world s)))")
    case False
    from write_no_entry [OF Some this] show ?thesis by simp
  next
    case True
    show ?thesis
    proof (cases "hFile = nullptr \<or> hFile = INVALID_HANDLE_VALUE")
      case bad: True
      from write_no_file [OF Some True this] bad show ?thesis by auto
    next
      case False
      then have "hFile \<noteq> nullptr" "hFile \<noteq> INVALID_HANDLE_VALUE" by simp_all
      from write_done [OF Some True this] obtain rv msg b tl where
        c: "calls (CreateMiniDump_write os ep ph pid hFile s) =
              calls s @ [EvLoadLibrary ''DbgHelp.dll'' True, EvGetProcAddress ''MiniDumpWriteDump'' True,
                  EvMiniDumpWriteDump ph pid hFile
                    (exception_param os (snd (os_LoadLibrary os ''DbgHelp.dll'' (world s))) ep) rv,
                  Log msg, EvCloseHandle hFile b] @ tl"
        and tl: "tl = [] \<or> (\<exists>x. tl = [Log x])"
        by blast
      from tl show ?thesis
        unfolding c by (elim disjE exE) auto
    qed
  qed
qed

lemma file_trace:
  "\<exists>es. calls (CreateMiniDump_file os ep ph pid s) =
          calls s @ [Log [S ''Creating name...''], Log [S ''Minidump file name: '', S (built_name os s)],
                     EvCreateFile (built_name os s) (fst (fst (os_CreateFile os (built_name os s) (world s))))] @ es \<and>
     (\<forall>n h. EvCreateFile n h \<notin> set es) \<and>
     (\<forall>hp p hf param rv. EvMiniDumpWriteDump hp p hf param rv \<in> set es \<longrightarrow>
        hp = ph \<and> p = pid \<and> hf = fst (fst (os_CreateFile os (built_name os s) (world s))) \<and>
        (\<exists>w. param = exception_param os w ep)) \<and>
     (fst (fst (os_CreateFile os (built_name os s) (world s))) \<noteq> nullptr \<and>
      EvGetProcAddress ''MiniDumpWriteDump'' True \<in> set es \<longrightarrow>
        (\<exists>param rv b.
           EvMiniDumpWriteDump ph pid (fst (fst (os_CreateFile os (built_name os s) (world s)))) param rv \<in> set es \<and>
           EvCloseHandle (fst (fst (os_CreateFile os (built_name os s) (world s)))) b \<in> set es))"
proof -
  let ?n = "built_name os s"
  let ?s2 = "CreateMinidumpFileName os (LOG [S ''Creating name...''] s)"
  let ?h = "fst (fst (os_CreateFile os ?n (world s)))"
  have n: "g_minidumpFileName ?s2 = ?n"
    by (simp add: CreateMinidumpFileName_result LOG_def emit_def built_name_def)
  have w: "world ?s2 = world s"
    by (simp add: CreateMinidumpFileName_result LOG_def emit_def)
  have c: "calls ?s2 = calls s @ [Log [S ''Creating name...''], Log [S ''Minidump file name: '', S ?n]]"
    by (simp add: CreateMinidumpFileName_result LOG_def emit_def built_name_def)
  let ?s3 = "snd (CreateFile os ?n ?s2)"
  have h: "fst (CreateFile os ?n ?s2) = ?h"
    by (simp add: fst_CreateFile w)
  have c3: "calls ?s3 = calls s @ [Log [S ''Creating name...''], Log [S ''Minidump file name: '', S ?n],
                                    EvCreateFile ?n ?h]"
    by (simp add: calls_CreateFile c h)
  show ?thesis
  proof (cases "?h = INVALID_HANDLE_VALUE")
    case True
    then have "CreateMiniDump_file os ep ph pid s =
      LOG [S ''CreateFile returned INVALID_HANDLE_VALUE: GetLastError()='', D (lastError ?s3)] ?s3"
      by (simp add: CreateMiniDump_file_def Let_def split_beta n h)
    then show ?thesis by (simp add: calls_LOG c3)
  next
    case False
    then have eq: "CreateMiniDump_file os ep ph pid s = CreateMiniDump_write os ep ph pid ?h ?s3"
      by (simp add: CreateMiniDump_file_def Let_def split_beta n h)
    from write_trace [of os ep ph pid ?h ?s3] obtain es where
      es: "calls (CreateMiniDump_write os ep ph pid ?h ?s3) = calls ?s3 @ es"
        "\<forall>n h. EvCreateFile n h \<notin> set es"
        "\<forall>hp p hf param rv. EvMiniDumpWriteDump hp p hf param rv \<in> set es \<longrightarrow>
           hp = ph \<and> p = pid \<and> hf = ?h \<and>
           param = exception_param os (snd (os_LoadLibrary os ''DbgHelp.dll'' (world ?s3))) ep"
        "?h \<noteq> nullptr \<and> ?h \<noteq> INVALID_HANDLE_VALUE \<and>
         EvGetProcAddress ''MiniDumpWriteDump'' True \<in> set es \<longrightarrow>
           (\<exists>param rv b. EvMiniDumpWriteDump ph pid ?h param rv \<in> set es \<and>
                       EvCloseHandle ?h b \<in> set es)"
      by blast
    from es(3) have weaker:
      "\<forall>hp p hf param rv. EvMiniDumpWriteDump hp p hf param rv \<in> set es \<longrightarrow>
         hp = ph \<and> p = pid \<and> hf = ?h \<and> (\<exists>w. param = exception_param os w ep)"
      by blast
    have "calls (CreateMiniDump_file os ep ph pid s) =
            calls s @ [Log [S ''Creating name...''], Log [S ''Minidump file name: '', S ?n],
                       EvCreateFile ?n ?h] @ es"
      by (simp add: eq es(1) c3)
    with es(2) weaker es(4) False show ?thesis by blast
  qed
qed

lemma capture_shape:
  "\<exists>s4. steps s s4 \<and>
     (CreateMiniDump_capture os ep ph pid dn s = s4 \<or>
      CreateMiniDump_capture os ep ph pid dn s = CreateMiniDump_file os ep ph pid s4)"
proof -
  let ?s1 = "LOG [S ''Creating Mini dump...''] s"
  obtain ok s2 where folder: "CreateMinidumpFolder os ?s1 = (ok, s2)"
    by (cases "CreateMinidumpFolder os ?s1")
  have "steps ?s1 (snd (CreateMinidumpFolder os ?s1))" by (rule steps_CreateMinidumpFolder)
  with folder have "steps ?s1 s2" by simp
  then have s2: "steps s s2" by (rule steps_trans [OF steps_LOG])
  show ?thesis
  proof (cases ok)
    case False
    with folder have "CreateMiniDump_capture os ep ph pid dn s = s2"
      by (simp add: CreateMiniDump_capture_def Let_def)
    with s2 show ?thesis by blast
  next
    case True
    obtain removed s3 where ret: "RemoveOldMinidumps os s2 = (removed, s3)"
      by (cases "RemoveOldMinidumps os s2")
    have "steps s2 (snd (RemoveOldMinidumps os s2))" by (rule steps_RemoveOldMinidumps)
    with ret have "steps s2 s3" by simp
    with s2 have s3: "steps s s3" by (rule steps_trans)
    let ?s4 = "if removed = False
               then LOG [S ''Failed to remove old minidumps, ignoring it...''] s3 else s3"
    have s4: "steps s ?s4" using s3 steps_trans [OF s3 steps_LOG] by simp
    from True folder ret have "CreateMiniDump_capture os ep ph pid dn s =
        CreateMiniDump_file os ep ph pid ?s4"
      by (simp add: CreateMiniDump_capture_def Let_def)
    with s4 show ?thesis by blast
  qed
qed

lemma capture_events:
  "\<exists>es. calls (CreateMiniDump_capture os ep ph pid dn s) = calls s @ es \<and>
     (\<forall>n h. EvCreateFile n h \<in> set es \<longrightarrow>
        (\<exists>t. n = g_minidumpStringBuilder s @ g_dumpFolder s @ g_dumpName s @ ''_'' @
                  time_stamp t @ ''.dmp'')) \<and>
     (\<forall>hp p hf param rv. EvMiniDumpWriteDump hp p hf param rv \<in> set es \<longrightarrow>
        hp = ph \<and> p = pid \<and> (\<exists>w. param = exception_param os w ep)) \<and>
     (\<forall>n h. h \<noteq> nullptr \<and> EvCreateFile n h \<in> set es \<and>
            EvGetProcAddress ''MiniDumpWriteDump'' True \<in> set es \<longrightarrow>
        (\<exists>param rv b. EvMiniDumpWriteDump ph pid h param rv \<in> set es \<and>
                       EvCloseHandle h b \<in> set es))"
proof -
  from capture_shape [of s os ep ph pid dn] obtain s4 where s4: "steps s s4"
    and shape: "CreateMiniDump_capture os ep ph pid dn s = s4 \<or>
      CreateMiniDump_capture os ep ph pid dn s = CreateMiniDump_file os ep ph pid s4"
    by blast
  from steps_events [OF s4] obtain es0 where es0: "calls s4 = calls s @ es0" "list_all fs_event es0"
    by blast
  note none = fs_event_only [OF es0(2)]
  from shape show ?thesis
  proof
    assume "CreateMiniDump_capture os ep ph pid dn s = s4"
    with es0(1) none show ?thesis by auto
  next
    assume infile: "CreateMiniDump_capture os ep ph pid dn s = CreateMiniDump_file os ep ph pid s4"
    let ?n = "built_name os s4"
    let ?h = "fst (fst (os_CreateFile os ?n (world s4)))"
    from file_trace [of os ep ph pid s4] obtain es1 where
      c: "calls (CreateMiniDump_file os ep ph pid s4) =
            calls s4 @ [Log [S ''Creating name...''], Log [S ''Minidump file name: '', S ?n],
                        EvCreateFile ?n ?h] @ es1"
      and nocreate: "\<forall>n h. EvCreateFile n h \<notin> set es1"
      and writer: "\<forall>hp p hf param rv. EvMiniDumpWriteDump hp p hf param rv \<in> set es1 \<longrightarrow>
          hp = ph \<and> p = pid \<and> hf = ?h \<and> (\<exists>w. param = exception_param os w ep)"
      and written: "?h \<noteq> nullptr \<and> EvGetProcAddress ''MiniDumpWriteDump'' True \<in> set es1 \<longrightarrow>
          (\<exists>param rv b. EvMiniDumpWriteDump ph pid ?h param rv \<in> set es1 \<and>
                         EvCloseHandle ?h b \<in> set es1)"
      by blast
    let ?es = "es0 @ [Log [S ''Creating name...''], Log [S ''Minidump file name: '', S ?n],
                      EvCreateFile ?n ?h] @ es1"
    have calls: "calls (CreateMiniDump_capture os ep ph pid dn s) = calls s @ ?es"
      by (simp add: infile c es0(1))
    from steps_built_name [OF s4, of os] obtain t where
      t: "?n = g_minidumpStringBuilder s @ g_dumpFolder s @ g_dumpName s @ ''_'' @
               time_stamp t @ ''.dmp''"
      by blast
    have create: "EvCreateFile n h \<in> set ?es \<Longrightarrow> n = ?n \<and> h = ?h" for n h
      using none(1) nocreate by auto
    have p1: "\<forall>n h. EvCreateFile n h \<in> set ?es \<longrightarrow>
        (\<exists>t. n = g_minidumpStringBuilder s @ g_dumpFolder s @ g_dumpName s @ ''_'' @
                  time_stamp t @ ''.dmp'')"
      using create t by blast
    have p2: "\<forall>hp p hf param rv. EvMiniDumpWriteDump hp p hf param rv \<in> set ?es \<longrightarrow>
        hp = ph \<and> p = pid \<and> (\<exists>w. param = exception_param os w ep)"
      using none(2) writer by auto
    have p3: "\<forall>n h. h \<noteq> nullptr \<and> EvCreateFile n h \<in> set ?es \<and>
            EvGetProcAddress ''MiniDumpWriteDump'' True \<in> set ?es \<longrightarrow>
        (\<exists>param rv b. EvMiniDumpWriteDump ph pid h param rv \<in> set ?es \<and>
                       EvCloseHandle h b \<in> set ?es)"
    proof (intro allI impI)
      fix n h
      assume a: "h \<noteq> nullptr \<and> EvCreateFile n h \<in> set ?es \<and>
            EvGetProcAddress ''MiniDumpWriteDump'' True \<in> set ?es"
      then have h: "h = ?h" using create by blast
      from a none(3) have "EvGetProcAddress ''MiniDumpWriteDump'' True \<in> set es1" by auto
      with a h written obtain param rv b where
        "EvMiniDumpWriteDump ph pid ?h param rv \<in> set es1" "EvCloseHandle ?h b \<in> set es1"
        by blast
      then have "EvMiniDumpWriteDump ph pid h param rv \<in> set ?es \<and> EvCloseHandle h b \<in> set ?es"
        by (simp add: h)
      then show "\<exists>param rv b. EvMiniDumpWriteDump ph pid h param rv \<in> set ?es \<and>
                       EvCloseHandle h b \<in> set ?es"
        by blast
    qed
    from calls p1 p2 p3 show ?thesis by blast
  qed
qed

lemma file_written:
  assumes "os_CreateFile os (built_name os s) (world s) = ((hFile, e), w4)"
    and "hFile \<noteq> INVALID_HANDLE_VALUE" and "hFile \<noteq> nullptr"
    and "os_LoadLibrary os ''DbgHelp.dll'' w4 = (Some m, w5)"
    and "os_GetProcAddress os m ''MiniDumpWriteDump'' w5"
  shows "\<exists>rv msg b tl.
     calls (CreateMiniDump_file os ep ph pid s) =
       calls s @ [Log [S ''Creating name...''], Log [S ''Minidump file name: '', S (built_name os s)],
                  EvCreateFile (built_name os s) hFile,
                  EvLoadLibrary ''DbgHelp.dll'' True, EvGetProcAddress ''MiniDumpWriteDump'' True,
                  EvMiniDumpWriteDump ph pid hFile (exception_param os w5 ep) rv,
                  Log msg, EvCloseHandle hFile b] @ tl \<and>
     (tl = [] \<or> (\<exists>x. tl = [Log x]))"
proof -
  let ?n = "built_name os s"
  let ?s2 = "CreateMinidumpFileName os (LOG [S ''Creating name...''] s)"
  have n: "g_minidumpFileName ?s2 = ?n"
    by (simp add: CreateMinidumpFileName_result LOG_def emit_def built_name_def)
  have w: "world ?s2 = world s"
    by (simp add: CreateMinidumpFileName_result LOG_def emit_def)
  have c: "calls ?s2 = calls s @ [Log [S ''Creating name...''], Log [S ''Minidump file name: '', S ?n]]"
    by (simp add: CreateMinidumpFileName_result LOG_def emit_def built_name_def)
  let ?s3 = "snd (CreateFile os ?n ?s2)"
  have h: "fst (CreateFile os ?n ?s2) = hFile"
    by (simp add: fst_CreateFile w assms(1))
  have w3: "world ?s3 = w4"
    by (simp add: world_CreateFile w assms(1))
  have c3: "calls ?s3 = calls s @ [Log [S ''Creating name...''], Log [S ''Minidump file name: '', S ?n],
                                    EvCreateFile ?n hFile]"
    by (simp add: calls_CreateFile c h)
  from assms(2) have eq: "CreateMiniDump_file os ep ph pid s = CreateMiniDump_write os ep ph pid hFile ?s3"
    by (simp add: CreateMiniDump_file_def Let_def split_beta n h)
  have l: "fst (os_LoadLibrary os ''DbgHelp.dll'' (world ?s3)) = Some m"
    by (simp only: w3 assms(4) fst_conv)
  have g: "os_GetProcAddress os m ''MiniDumpWriteDump'' (snd (os_LoadLibrary os ''DbgHelp.dll'' (world ?s3)))"
    by (simp only: w3 assms(4) snd_conv assms(5))
  from write_done [OF l g assms(3) assms(2), of ep ph pid] obtain rv msg b tl where
    d: "calls (CreateMiniDump_write os ep ph pid hFile ?s3) =
       calls ?s3 @ [EvLoadLibrary ''DbgHelp.dll'' True, EvGetProcAddress ''MiniDumpWriteDump'' True,
                  EvMiniDumpWriteDump ph pid hFile
                    (exception_param os (snd (os_LoadLibrary os ''DbgHelp.dll'' (world ?s3))) ep) rv,
                  Log msg, EvCloseHandle hFile b] @ tl"
    and tl: "tl = [] \<or> (\<exists>x. tl = [Log x])"
    by blast
  have w5: "snd (os_LoadLibrary os ''DbgHelp.dll'' (world ?s3)) = w5"
    by (simp only: w3 assms(4) snd_conv)
  have "calls (CreateMiniDump_file os ep ph pid s) =
       calls s @ [Log [S ''Creating name...''], Log [S ''Minidump file name: '', S ?n],
                  EvCreateFile ?n hFile,
                  EvLoadLibrary ''DbgHelp.dll'' True, EvGetProcAddress ''MiniDumpWriteDump'' True,
                  EvMiniDumpWriteDump ph pid hFile (exception_param os w5 ep) rv,
                  Log msg, EvCloseHandle hFile b] @ tl"
    unfolding eq d w5 c3 by simp
  with tl show ?thesis by blast
qed

lemma capture_written:
  assumes "CreateMinidumpFolder os (LOG [S ''Creating Mini dump...''] s) = (True, s2)"
    and "RemoveOldMinidumps os s2 = (removed, s3)"
    and "os_CreateFile os (built_name os s3) (world s3) = ((hFile, e), w4)"
    and "hFile \<noteq> INVALID_HANDLE_VALUE" and "hFile \<noteq> nullptr"
    and "os_LoadLibrary os ''DbgHelp.dll'' w4 = (Some m, w5)"
    and "os_GetProcAddress os m ''MiniDumpWriteDump'' w5"
  shows "\<exists>es0 rv msg b tl.
     calls (CreateMiniDump_capture os ep ph pid dn s) =
       calls s @ es0 @
         [Log [S ''Creating name...''], Log [S ''Minidump file name: '', S (built_name os s3)],
          EvCreateFile (built_name os s3) hFile,
          EvLoadLibrary ''DbgHelp.dll'' True, EvGetProcAddress ''MiniDumpWriteDump'' True,
          EvMiniDumpWriteDump ph pid hFile (exception_param os w5 ep) rv,
          Log msg, EvCloseHandle hFile b] @ tl \<and>
     list_all fs_event es0 \<and> (tl = [] \<or> (\<exists>x. tl = [Log x]))"
proof -
  let ?s1 = "LOG [S ''Creating Mini dump...''] s"
  let ?s4 = "if removed = False
             then LOG [S ''Failed to remove old minidumps, ignoring it...''] s3 else s3"
  have "steps ?s1 (snd (CreateMinidumpFolder os ?s1))" by (rule steps_CreateMinidumpFolder)
  with assms(1) have "steps ?s1 s2" by simp
  then have s2: "steps s s2" by (rule steps_trans [OF steps_LOG])
  have "steps s2 (snd (RemoveOldMinidumps os s2))" by (rule steps_RemoveOldMinidumps)
  with assms(2) have "steps s2 s3" by simp
  with s2 have s3: "steps s s3" by (rule steps_trans)
  have s4: "steps s ?s4" using s3 steps_trans [OF s3 steps_LOG] by simp
  from steps_events [OF s4] obtain es0 where
    es0: "calls ?s4 = calls s @ es0" "list_all fs_event es0"
    by blast
  have shape: "CreateMiniDump_capture os ep ph pid dn s = CreateMiniDump_file os ep ph pid ?s4"
    using assms(1,2) by (simp add: CreateMiniDump_capture_def Let_def)
  have b: "built_name os ?s4 = built_name os s3" by (simp add: built_name_LOG)
  have w: "world ?s4 = world s3" by (simp add: world_LOG)
  have "os_CreateFile os (built_name os ?s4) (world ?s4) = ((hFile, e), w4)"
    unfolding b w by (rule assms(3))
  from file_written [OF this assms(4-7), of ep ph pid] obtain rv msg bb tl where
    "calls (CreateMiniDump_file os ep ph pid ?s4) =
       calls ?s4 @ [Log [S ''Creating name...''], Log [S ''Minidump file name: '', S (built_name os ?s4)],
                  EvCreateFile (built_name os ?s4) hFile,
                  EvLoadLibrary ''DbgHelp.dll'' True, EvGetProcAddress ''MiniDumpWriteDump'' True,
                  EvMiniDumpWriteDump ph pid hFile (exception_param os w5 ep) rv,
                  Log msg, EvCloseHandle hFile bb] @ tl"
    and tl: "tl = [] \<or> (\<exists>x. tl = [Log x])"
    by blast
  then have "calls (CreateMiniDump_capture os ep ph pid dn s) =
       calls s @ es0 @
         [Log [S ''Creating name...''], Log [S ''Minidump file name: '', S (built_name os s3)],
          EvCreateFile (built_name os s3) hFile,
          EvLoadLibrary ''DbgHelp.dll'' True, EvGetProcAddress ''MiniDumpWriteDump'' True,
          EvMiniDumpWriteDump ph pid hFile (exception_param os w5 ep) rv,
          Log msg, EvCloseHandle hFile bb] @ tl"
    unfolding shape b es0(1) by simp
  with es0(2) tl show ?thesis by blast
qed

lemma CreateMiniDump_events:
  "\<exists>es. calls (snd (CreateMiniDump os processId dumpName s)) = calls s @ es \<and>
     (\<forall>n h. EvCreateFile n h \<in> set es \<longrightarrow>
        (\<exists>t. n = g_minidumpStringBuilder s @ g_dumpFolder s @ g_dumpName s @ ''_'' @
                  time_stamp t @ ''.dmp''))"
proof (cases "g_collectDumps s \<and> CheckDumpNameConstraints dumpName \<and>
              fst (fst (os_OpenProcess os processId (world s))) \<noteq> nullptr")
  case False
  then show ?thesis
    by (auto simp: CreateMiniDump_def Let_def split_beta calls_prims calls_SetLastError
          globals_LOG fst_OpenProcess world_LOG)
next
  case True
  let ?s1 = "snd (OpenProcess os processId (LOG [S ''CreateMiniDump''] s))"
  let ?h = "fst (fst (os_OpenProcess os processId (world s)))"
  let ?s2 = "CreateMiniDump_capture os 0 ?h processId dumpName ?s1"
  from True have r: "snd (CreateMiniDump os processId dumpName s) = snd (CloseHandle os ?h ?s2)"
    by (simp add: CreateMiniDump_def Let_def split_beta globals_LOG fst_OpenProcess world_LOG)
  from capture_events [of os 0 ?h processId dumpName ?s1] obtain es where
    c: "calls ?s2 = calls ?s1 @ es"
    and n: "\<forall>n h. EvCreateFile n h \<in> set es \<longrightarrow>
        (\<exists>t. n = g_minidumpStringBuilder ?s1 @ g_dumpFolder ?s1 @ g_dumpName ?s1 @ ''_'' @
                  time_stamp t @ ''.dmp'')"
    by blast
  have "calls (snd (CreateMiniDump os processId dumpName s)) =
      calls s @ [Log [S ''CreateMiniDump''], EvOpenProcess processId ?h] @ es @
        [EvCloseHandle ?h (fst (CloseHandle os ?h ?s2))]"
    by (simp add: r calls_prims c fst_OpenProcess world_LOG)
  moreover have "\<forall>n h. EvCreateFile n h \<in>
      set ([Log [S ''CreateMiniDump''], EvOpenProcess processId ?h] @ es @
        [EvCloseHandle ?h (fst (CloseHandle os ?h ?s2))]) \<longrightarrow>
        (\<exists>t. n = g_minidumpStringBuilder s @ g_dumpFolder s @ g_dumpName s @ ''_'' @
                  time_stamp t @ ''.dmp'')"
    using n by (simp add: globals_OpenProcess globals_LOG)
  ultimately show ?thesis by blast
qed

lemma fault_events:
  "\<exists>es. calls (CreateMiniDump_fault os ep s) = calls s @ es \<and>
     (\<forall>n h. EvCreateFile n h \<in> set es \<longrightarrow>
        (\<exists>t. n = g_minidumpStringBuilder s @ g_dumpFolder s @ g_dumpName s @ ''_'' @
                  time_stamp t @ ''.dmp''))"
proof (cases "g_collectDumps s")
  case True
  from capture_events [of os ep "os_GetCurrentProcess os (world s)"
      "os_GetCurrentProcessId os (world s)" "g_dumpName s" s]
  show ?thesis by (simp add: CreateMiniDump_fault_def True) blast
next
  case False
  then show ?thesis by (simp add: CreateMiniDump_fault_def calls_LOG)
qed

section \<open>The configuration is kept\<close>

lemma config_write: "config (CreateMiniDump_write os ep ph pid hFile s) = config s"
  by (simp add: CreateMiniDump_write_def config_prims Let_def split_beta split: option.splits)

lemma config_file: "config (CreateMiniDump_file os ep ph pid s) = config s"
proof -
  have "config (CreateMinidumpFileName os s') = config s'" for s'
    by (simp add: CreateMinidumpFileName_result config_prims) (simp add: config_def)
  then show ?thesis
    by (simp add: CreateMiniDump_file_def config_prims config_write Let_def split_beta)
qed

lemma config_capture: "config (CreateMiniDump_capture os ep ph pid dn s) = config s"
  using capture_shape [of s os ep ph pid dn] by (auto simp: config_file dest: steps_config)

lemma config_fault: "config (CreateMiniDump_fault os ep s) = config s"
  by (simp add: CreateMiniDump_fault_def config_capture config_prims)

lemma config_CreateMiniDump: "config (snd (CreateMiniDump os pid dn s)) = config s"
  by (simp add: CreateMiniDump_def Let_def split_beta config_prims config_capture)

lemma armed_init:
  "g_collectDumps s \<Longrightarrow>
   InitDumpCollection os n folder name s =
     (False, SetLastError ERROR_ACCESS_DENIED (LOG [S ''Initializing mini dump collection...''] s))"
  by (simp add: InitDumpCollection_def Let_def globals_LOG)

lemma config_api_step: "g_collectDumps s \<Longrightarrow> config (api_step os c s) = config s"
  by (cases c) (simp_all add: armed_init config_prims config_CreateMiniDump config_fault)

lemma config_run: "g_collectDumps s \<Longrightarrow> config (run os cs s) = config s"
proof (induction cs arbitrary: s)
  case Nil
  show ?case by simp
next
  case (Cons c cs)
  have c: "config (api_step os c s) = config s" by (rule config_api_step [OF Cons.prems])
  with Cons.prems have "g_collectDumps (api_step os c s)" by (simp add: config_def)
  from Cons.IH [OF this] c show ?case by simp
qed

lemma init_success:
  assumes "InitDumpCollection os n folder name s = (True, s1)"
  shows "\<exists>f d. folder = Some f \<and> name = Some d \<and> config s1 = (True, n, f, d, f @ d @ ''*.dmp'')"
  using assms
  by (auto simp: InitDumpCollection_def Let_def config_def LOG_def emit_def SetLastError_def
        split: if_splits option.splits)

section \<open>The program on the example machine\<close>

text \<open>
  The examples are evaluated by rewriting, arguments first: the congruence rules keep the
  simplifier out of the body of a \<open>let\<close> or a \<open>case\<close> until its argument is a value.
\<close>

lemmas machine_defs = windows_def m_CreateDirectory_def m_FindFirstFile_def m_DeleteFile_def
  m_CreateFile_def m_CloseHandle_def m_OpenProcess_def m_PathIsRelative_def valid_path_def
  dump_files_def dir_part_def name_part_def pc_def dumps_dir_def start_def

lemmas program_defs = InitDumpCollection_def CheckDumpNameConstraints_def wcslen_def
  LOG_def emit_def SetLastError_def CreateDirectory_def FindFirstFile_def DeleteFile_def
  CreateFile_def LoadLibrary_def GetProcAddress_def MiniDumpWriteDump_def CloseHandle_def
  OpenProcess_def CreateMinidumpFolder_def RemoveOldMinidumps_def CompareFileTime_def
  CreateMinidumpFileName_def CreateMiniDump_file_def CreateMiniDump_write_def
  CreateMiniDump_capture_def CreateMiniDump_fault_def CreateMiniDump_def Let_def

lemmas by_value = let_weak_cong prod.case_cong_weak option.case_cong_weak list.case_cong_weak
  sum.case_cong_weak

lemma armed_state:
  "armed 2 fs =
     \<lparr>g_collectDumps = True, g_numRetainedMinidumps = 2, g_dateTimeBuffer = [],
      g_dumpFolder = dumps_dir, g_dumpName = ''app'', g_minidumpStringBuilder = [],
      g_minidumpFileName = [], g_minidumpPattern = dumps_dir @ ''app*.dmp'', g_tmpPath = [],
      g_oldestFileFullName = [], world = pc fs, lastError = 0,
      calls = [Log [S ''Initializing mini dump collection...''],
               Log [S ''Mini dump collection successfully installed!'']]\<rparr>"
  by (simp add: armed_def InitDumpCollection_def CheckDumpNameConstraints_def
        wcslen_def LOG_def emit_def windows_def m_PathIsRelative_def dumps_dir_def start_def Let_def)

lemma two_dumps_fields:
  "g_collectDumps two_dumps" "g_dumpFolder two_dumps = dumps_dir" "g_dumpName two_dumps = ''app''"
  "g_minidumpStringBuilder two_dumps = []"
  "world two_dumps = pc [(''app_1.dmp'', 10), (''app_2.dmp'', 20)]"
  by (simp_all add: two_dumps_def armed_state)

lemma without_dbghelp_fields:
  "g_collectDumps without_dbghelp" "g_dumpFolder without_dbghelp = dumps_dir"
  "g_dumpName without_dbghelp = ''app''" "g_minidumpStringBuilder without_dbghelp = []"
  "fst (fst (os_OpenProcess windows 1234 (world without_dbghelp))) = 100"
  by (simp_all add: without_dbghelp_def armed_state windows_def m_OpenProcess_def pc_def)

lemma valid_names:
  "CheckDumpNameConstraints ''zzz''" "CheckDumpNameConstraints ''app''"
  "\<not> CheckDumpNameConstraints ''a/b''"
  by (simp_all add: CheckDumpNameConstraints_def wcslen_def)

lemma two_dumps_name:
  "g_minidumpFileName (CreateMinidumpFileName windows two_dumps) =
     dumps_dir @ ''app_05.03.2024 - 9_7_2.dmp''"
  by (simp add: two_dumps_def armed_state CreateMinidumpFileName_def windows_def pc_def LOG_def
        emit_def Let_def decimal.simps dumps_dir_def)

lemma two_dumps_folder:
  "fst (CreateMinidumpFolder windows (LOG [S ''Creating Mini dump...''] two_dumps)) = True"
  by (simp add: two_dumps_def armed_state machine_defs program_defs cong: by_value)

lemma two_dumps_retention:
  "fst (RemoveOldMinidumps windows
          (snd (CreateMinidumpFolder windows (LOG [S ''Creating Mini dump...''] two_dumps)))) = False"
  by (simp add: two_dumps_def armed_state machine_defs program_defs cong: by_value)

lemma without_dbghelp_run:
  "fst (CreateMiniDump windows 1234 ''zzz'' without_dbghelp) = True \<and>
   new_events without_dbghelp (snd (CreateMiniDump windows 1234 ''zzz'' without_dbghelp)) =
     [Log [S ''CreateMiniDump''], EvOpenProcess 1234 100,
      Log [S ''Creating Mini dump...''],
      Log [S (''Creating directory: '' @ [CHR 0x27]), S (''C:'' @ [CHR 0x5C] @ ''dumps'')],
      EvCreateDirectory (''C:'' @ [CHR 0x5C] @ ''dumps'') False,
      Log [S ''Created directory''],
      Log [S ''Removing old minidumps, pattern: '', S (dumps_dir @ ''app*.dmp'')],
      EvFindFirstFile (dumps_dir @ ''app*.dmp'') False,
      Log [S ''No previous dump files found''],
      Log [S ''Creating name...''],
      Log [S ''Minidump file name: '', S (dumps_dir @ ''app_05.03.2024 - 9_7_2.dmp'')],
      EvCreateFile (dumps_dir @ ''app_05.03.2024 - 9_7_2.dmp'') 104,
      EvLoadLibrary ''DbgHelp.dll'' False, EvCloseHandle 100 True] \<and>
   m_open (world (snd (CreateMiniDump windows 1234 ''zzz'' without_dbghelp))) = [104]"
  by (simp add: without_dbghelp_def armed_state new_events_def machine_defs
        program_defs decimal.simps cong: by_value)

lemma unusable_folder_run:
  "fst (CreateMiniDump windows 1234 ''app'' unusable_folder) = True \<and>
   new_events unusable_folder (snd (CreateMiniDump windows 1234 ''app'' unusable_folder)) =
     [Log [S ''CreateMiniDump''], EvOpenProcess 1234 100,
      Log [S ''Creating Mini dump...''],
      Log [S (''Creating directory: '' @ [CHR 0x27]), S (''C:'' @ [CHR 0x5C] @ ''a?b'')],
      EvCreateDirectory (''C:'' @ [CHR 0x5C] @ ''a?b'') False,
      Log [S (''CreateDirectory '' @ [CHR 0x27]), S (''C:'' @ [CHR 0x5C] @ ''a?b''),
           S (CHR 0x27 # ''failed: ''), D 123],
      EvCloseHandle 100 True] \<and>
   m_files (world (snd (CreateMiniDump windows 1234 ''app'' unusable_folder))) = []"
  by (simp add: unusable_folder_def new_events_def machine_defs program_defs cong: by_value)

lemma two_dumps_reached:
  "world (snd (RemoveOldMinidumps windows
          (snd (CreateMinidumpFolder windows (LOG [S ''Creating Mini dump...''] two_dumps))))) =
     world two_dumps"
  "built_name windows (snd (RemoveOldMinidumps windows
          (snd (CreateMinidumpFolder windows (LOG [S ''Creating Mini dump...''] two_dumps))))) =
     dumps_dir @ ''app_05.03.2024 - 9_7_2.dmp''"
  by (simp_all add: two_dumps_def armed_state machine_defs program_defs built_name_def
        time_stamp_def two_digits_def decimal.simps cong: by_value)

lemma two_dumps_services:
  "fst (fst (os_CreateFile windows (dumps_dir @ ''app_05.03.2024 - 9_7_2.dmp'') (world two_dumps))) = 100"
  "fst (os_LoadLibrary windows ''DbgHelp.dll''
          (snd (os_CreateFile windows (dumps_dir @ ''app_05.03.2024 - 9_7_2.dmp'') (world two_dumps)))) =
     Some 1"
  "os_GetProcAddress windows 1 ''MiniDumpWriteDump''
     (snd (os_LoadLibrary windows ''DbgHelp.dll''
          (snd (os_CreateFile windows (dumps_dir @ ''app_05.03.2024 - 9_7_2.dmp'') (world two_dumps)))))"
  "os_GetCurrentThreadId windows w = 77"
  by (simp_all add: two_dumps_fields machine_defs cong: by_value)

lemma first_capture_state:
  "CreateMiniDump windows 1234 ''app'' two_dumps =
     (True,
      \<lparr>g_collectDumps = True, g_numRetainedMinidumps = 2, g_dateTimeBuffer = [],
       g_dumpFolder = dumps_dir, g_dumpName = ''app'',
       g_minidumpStringBuilder = dumps_dir @ ''app_05.03.2024 - 9_7_2.dmp'',
       g_minidumpFileName = dumps_dir @ ''app_05.03.2024 - 9_7_2.dmp'',
       g_minidumpPattern = dumps_dir @ ''app*.dmp'',
       g_tmpPath = dumps_dir @ ''app*.dmpapp_2.dmp'',
       g_oldestFileFullName = dumps_dir @ ''app*.dmpapp_1.dmp'',
       world =
         \<lparr>m_dirs = [''C:'' @ [CHR 0x5C] @ ''dumps''],
          m_files = [(dumps_dir @ ''app_1.dmp'', 10), (dumps_dir @ ''app_2.dmp'', 20),
                     (dumps_dir @ ''app_05.03.2024 - 9_7_2.dmp'', 1000)],
          m_clock = \<lparr>wYear = 2024, wMonth = 3, wDay = 5, wHour = 9, wMinute = 7, wSecond = 2\<rparr>,
          m_filetime = 1000, m_dbghelp = True, m_entry_point = True, m_write_ok = True,
          m_processes = [1234], m_open = [], m_next = 108\<rparr>,
       lastError = 123,
       calls =
         [Log [S ''Initializing mini dump collection...''],
          Log [S ''Mini dump collection successfully installed!''],
          Log [S ''CreateMiniDump''], EvOpenProcess 1234 100,
          Log [S ''Creating Mini dump...''],
          Log [S (''Creating directory: '' @ [CHR 0x27]), S (''C:'' @ [CHR 0x5C] @ ''dumps'')],
          EvCreateDirectory (''C:'' @ [CHR 0x5C] @ ''dumps'') False,
          Log [S ''Created directory''],
          Log [S ''Removing old minidumps, pattern: '', S (dumps_dir @ ''app*.dmp'')],
          EvFindFirstFile (dumps_dir @ ''app*.dmp'') True,
          EvDeleteFile (dumps_dir @ ''app*.dmpapp_1.dmp'') False,
          Log [S ''DeleteFile failed: '', D 123],
          Log [S ''Failed to remove old minidumps, ignoring it...''],
          Log [S ''Creating name...''],
          Log [S ''Minidump file name: '', S (dumps_dir @ ''app_05.03.2024 - 9_7_2.dmp'')],
          EvCreateFile (dumps_dir @ ''app_05.03.2024 - 9_7_2.dmp'') 104,
          EvLoadLibrary ''DbgHelp.dll'' True,
          EvGetProcAddress ''MiniDumpWriteDump'' True,
          EvMiniDumpWriteDump 100 1234 104 None True,
          Log [S ''Minidump saved''], EvCloseHandle 104 True, EvCloseHandle 100 True]\<rparr>)"
  by (simp add: two_dumps_def armed_state machine_defs program_defs decimal.simps cong: by_value)


lemma captured_once_state:
  "captured_once =
      \<lparr>g_collectDumps = True, g_numRetainedMinidumps = 2, g_dateTimeBuffer = [],
       g_dumpFolder = dumps_dir, g_dumpName = ''app'',
       g_minidumpStringBuilder = dumps_dir @ ''app_05.03.2024 - 9_7_2.dmp'',
       g_minidumpFileName = dumps_dir @ ''app_05.03.2024 - 9_7_2.dmp'',
       g_minidumpPattern = dumps_dir @ ''app*.dmp'',
       g_tmpPath = dumps_dir @ ''app*.dmpapp_2.dmp'',
       g_oldestFileFullName = dumps_dir @ ''app*.dmpapp_1.dmp'',
       world =
         \<lparr>m_dirs = [''C:'' @ [CHR 0x5C] @ ''dumps''],
          m_files = [(dumps_dir @ ''app_1.dmp'', 10), (dumps_dir @ ''app_2.dmp'', 20),
                     (dumps_dir @ ''app_05.03.2024 - 9_7_2.dmp'', 1000)],
          m_clock = \<lparr>wYear = 2024, wMonth = 3, wDay = 5, wHour = 10, wMinute = 0, wSecond = 0\<rparr>,
          m_filetime = 1000, m_dbghelp = True, m_entry_point = True, m_write_ok = True,
          m_processes = [1234], m_open = [], m_next = 108\<rparr>,
       lastError = 123,
       calls =
         [Log [S ''Initializing mini dump collection...''],
          Log [S ''Mini dump collection successfully installed!''],
          Log [S ''CreateMiniDump''], EvOpenProcess 1234 100,
          Log [S ''Creating Mini dump...''],
          Log [S (''Creating directory: '' @ [CHR 0x27]), S (''C:'' @ [CHR 0x5C] @ ''dumps'')],
          EvCreateDirectory (''C:'' @ [CHR 0x5C] @ ''dumps'') False,
          Log [S ''Created directory''],
          Log [S ''Removing old minidumps, pattern: '', S (dumps_dir @ ''app*.dmp'')],
          EvFindFirstFile (dumps_dir @ ''app*.dmp'') True,
          EvDeleteFile (dumps_dir @ ''app*.dmpapp_1.dmp'') False,
          Log [S ''DeleteFile failed: '', D 123],
          Log [S ''Failed to remove old minidumps, ignoring it...''],
          Log [S ''Creating name...''],
          Log [S ''Minidump file name: '', S (dumps_dir @ ''app_05.03.2024 - 9_7_2.dmp'')],
          EvCreateFile (dumps_dir @ ''app_05.03.2024 - 9_7_2.dmp'') 104,
          EvLoadLibrary ''DbgHelp.dll'' True,
          EvGetProcAddress ''MiniDumpWriteDump'' True,
          EvMiniDumpWriteDump 100 1234 104 None True,
          Log [S ''Minidump saved''], EvCloseHandle 104 True, EvCloseHandle 100 True]\<rparr>"
  by (simp add: captured_once_def first_capture_state)

lemma first_capture_run:
  "fst (CreateMiniDump windows 1234 ''app'' two_dumps) = True \<and>
   new_events two_dumps (snd (CreateMiniDump windows 1234 ''app'' two_dumps)) =
     [Log [S ''CreateMiniDump''], EvOpenProcess 1234 100,
      Log [S ''Creating Mini dump...''],
      Log [S (''Creating directory: '' @ [CHR 0x27]), S (''C:'' @ [CHR 0x5C] @ ''dumps'')],
      EvCreateDirectory (''C:'' @ [CHR 0x5C] @ ''dumps'') False,
      Log [S ''Created directory''],
      Log [S ''Removing old minidumps, pattern: '', S (dumps_dir @ ''app*.dmp'')],
      EvFindFirstFile (dumps_dir @ ''app*.dmp'') True,
      EvDeleteFile (dumps_dir @ ''app*.dmpapp_1.dmp'') False,
      Log [S ''DeleteFile failed: '', D 123],
      Log [S ''Failed to remove old minidumps, ignoring it...''],
      Log [S ''Creating name...''],
      Log [S ''Minidump file name: '', S (dumps_dir @ ''app_05.03.2024 - 9_7_2.dmp'')],
      EvCreateFile (dumps_dir @ ''app_05.03.2024 - 9_7_2.dmp'') 104,
      EvLoadLibrary ''DbgHelp.dll'' True,
      EvGetProcAddress ''MiniDumpWriteDump'' True,
      EvMiniDumpWriteDump 100 1234 104 None True,
      Log [S ''Minidump saved''], EvCloseHandle 104 True, EvCloseHandle 100 True] \<and>
   map fst (m_files (world captured_once)) =
     [dumps_dir @ ''app_1.dmp'', dumps_dir @ ''app_2.dmp'',
      dumps_dir @ ''app_05.03.2024 - 9_7_2.dmp''] \<and>
   g_minidumpStringBuilder captured_once = dumps_dir @ ''app_05.03.2024 - 9_7_2.dmp''"
proof -
  have "length (calls two_dumps) = 2" by (simp add: two_dumps_def armed_state)
  then show ?thesis
    by (simp add: captured_once_state first_capture_state new_events_def)
qed

lemma second_capture_state:
  "CreateMiniDump windows 1234 ''app'' captured_once =
     (True,
      captured_once
        \<lparr>g_minidumpStringBuilder :=
           dumps_dir @ ''app_05.03.2024 - 9_7_2.dmp'' @ dumps_dir @ ''app_05.03.2024 - 10_0_0.dmp'',
         g_minidumpFileName :=
           dumps_dir @ ''app_05.03.2024 - 9_7_2.dmp'' @ dumps_dir @ ''app_05.03.2024 - 10_0_0.dmp'',
         world := (world captured_once)\<lparr>m_next := 112\<rparr>,
         calls := calls captured_once @
           [Log [S ''CreateMiniDump''], EvOpenProcess 1234 108,
            Log [S ''Creating Mini dump...''],
            Log [S (''Creating directory: '' @ [CHR 0x27]), S (''C:'' @ [CHR 0x5C] @ ''dumps'')],
            EvCreateDirectory (''C:'' @ [CHR 0x5C] @ ''dumps'') False,
            Log [S ''Created directory''],
            Log [S ''Removing old minidumps, pattern: '', S (dumps_dir @ ''app*.dmp'')],
            EvFindFirstFile (dumps_dir @ ''app*.dmp'') True,
            EvDeleteFile (dumps_dir @ ''app*.dmpapp_1.dmp'') False,
            Log [S ''DeleteFile failed: '', D 123],
            Log [S ''Failed to remove old minidumps, ignoring it...''],
            Log [S ''Creating name...''],
            Log [S ''Minidump file name: '',
                 S (dumps_dir @ ''app_05.03.2024 - 9_7_2.dmp'' @ dumps_dir @
                    ''app_05.03.2024 - 10_0_0.dmp'')],
            EvCreateFile
              (dumps_dir @ ''app_05.03.2024 - 9_7_2.dmp'' @ dumps_dir @ ''app_05.03.2024 - 10_0_0.dmp'')
              INVALID_HANDLE_VALUE,
            Log [S ''CreateFile returned INVALID_HANDLE_VALUE: GetLastError()='', D 123],
            EvCloseHandle 108 True]\<rparr>)"
  by (simp add: captured_once_state machine_defs program_defs decimal.simps cong: by_value)

lemma second_capture_run:
  "fst (CreateMiniDump windows 1234 ''app'' captured_once) = True \<and>
   new_events captured_once (snd (CreateMiniDump windows 1234 ''app'' captured_once)) =
     [Log [S ''CreateMiniDump''], EvOpenProcess 1234 108,
      Log [S ''Creating Mini dump...''],
      Log [S (''Creating directory: '' @ [CHR 0x27]), S (''C:'' @ [CHR 0x5C] @ ''dumps'')],
      EvCreateDirectory (''C:'' @ [CHR 0x5C] @ ''dumps'') False,
      Log [S ''Created directory''],
      Log [S ''Removing old minidumps, pattern: '', S (dumps_dir @ ''app*.dmp'')],
      EvFindFirstFile (dumps_dir @ ''app*.dmp'') True,
      EvDeleteFile (dumps_dir @ ''app*.dmpapp_1.dmp'') False,
      Log [S ''DeleteFile failed: '', D 123],
      Log [S ''Failed to remove old minidumps, ignoring it...''],
      Log [S ''Creating name...''],
      Log [S ''Minidump file name: '',
           S (dumps_dir @ ''app_05.03.2024 - 9_7_2.dmp'' @ dumps_dir @ ''app_05.03.2024 - 10_0_0.dmp'')],
      EvCreateFile
        (dumps_dir @ ''app_05.03.2024 - 9_7_2.dmp'' @ dumps_dir @ ''app_05.03.2024 - 10_0_0.dmp'')
        INVALID_HANDLE_VALUE,
      Log [S ''CreateFile returned INVALID_HANDLE_VALUE: GetLastError()='', D 123],
      EvCloseHandle 108 True] \<and>
   map fst (m_files (world (snd (CreateMiniDump windows 1234 ''app'' captured_once)))) =
     [dumps_dir @ ''app_1.dmp'', dumps_dir @ ''app_2.dmp'',
      dumps_dir @ ''app_05.03.2024 - 9_7_2.dmp'']"
proof -
  have "map fst (m_files (world captured_once)) =
     [dumps_dir @ ''app_1.dmp'', dumps_dir @ ''app_2.dmp'',
      dumps_dir @ ''app_05.03.2024 - 9_7_2.dmp'']"
    by (simp add: captured_once_state)
  then show ?thesis
    by (simp add: second_capture_state new_events_def)
qed

lemma three_dumps_run:
  "fst (RemoveOldMinidumps windows three_dumps) = False \<and>
   new_events three_dumps (snd (RemoveOldMinidumps windows three_dumps)) =
     [Log [S ''Removing old minidumps, pattern: '', S (dumps_dir @ ''app*.dmp'')],
      EvFindFirstFile (dumps_dir @ ''app*.dmp'') True,
      EvDeleteFile (dumps_dir @ ''app*.dmpapp_1.dmp'') False,
      Log [S ''DeleteFile failed: '', D 123]] \<and>
   map cFileName (dump_files (g_minidumpPattern three_dumps)
                    (world (snd (RemoveOldMinidumps windows three_dumps)))) =
     [''app_1.dmp'', ''app_2.dmp'', ''app_3.dmp'']"
  by (simp add: three_dumps_def armed_state new_events_def machine_defs program_defs cong: by_value)

section \<open>The retention quota\<close>

text \<open>
  C1. The claim is that, with a retained count \<open>N\<close> and \<open>N + k\<close> matching dump files of
  distinct times in the folder, the folder holds exactly the \<open>N\<close> most recent of them after
  \<^verbatim>\<open>RemoveOldMinidumps\<close>. With \<open>N = 2\<close> and three files written at times 10, 20 and 30 the
  routine asks, at the second entry, for the deletion of \<^verbatim>\<open>C:\dumps\app*.dmpapp_1.dmp\<close>, the
  enumeration pattern followed by the file name; the service refuses the path, the routine
  returns \<^verbatim>\<open>FALSE\<close> and the three files are still there.
\<close>

theorem RemoveOldMinidumps_deletes_nothing:
  "g_numRetainedMinidumps three_dumps = 2 \<and>
   map cFileName (dump_files (g_minidumpPattern three_dumps) (world three_dumps)) =
     [''app_1.dmp'', ''app_2.dmp'', ''app_3.dmp''] \<and>
   map ftLastWriteTime (dump_files (g_minidumpPattern three_dumps) (world three_dumps)) = [10, 20, 30] \<and>
   fst (RemoveOldMinidumps windows three_dumps) = False \<and>
   new_events three_dumps (snd (RemoveOldMinidumps windows three_dumps)) =
     [Log [S ''Removing old minidumps, pattern: '', S (dumps_dir @ ''app*.dmp'')],
      EvFindFirstFile (dumps_dir @ ''app*.dmp'') True,
      EvDeleteFile (dumps_dir @ ''app*.dmpapp_1.dmp'') False,
      Log [S ''DeleteFile failed: '', D 123]] \<and>
   map cFileName (dump_files (g_minidumpPattern three_dumps)
                    (world (snd (RemoveOldMinidumps windows three_dumps)))) =
     [''app_1.dmp'', ''app_2.dmp'', ''app_3.dmp'']"
proof -
  have "g_numRetainedMinidumps three_dumps = 2 \<and>
   map cFileName (dump_files (g_minidumpPattern three_dumps) (world three_dumps)) =
     [''app_1.dmp'', ''app_2.dmp'', ''app_3.dmp''] \<and>
   map ftLastWriteTime (dump_files (g_minidumpPattern three_dumps) (world three_dumps)) = [10, 20, 30]"
    by (simp add: three_dumps_def armed_state machine_defs)
  with three_dumps_run show ?thesis by simp
qed

section \<open>One initialisation\<close>

text \<open>
  C2. After \<^verbatim>\<open>InitDumpCollection\<close> has succeeded once, and after any sequence of later calls of
  the exported functions and of faults, a call of \<^verbatim>\<open>InitDumpCollection\<close> returns \<^verbatim>\<open>FALSE\<close> with
  the last error \<^verbatim>\<open>ERROR_ACCESS_DENIED\<close>, and the retained count, the folder, the base name and
  the pattern are those of the first call; a file that a later capture creates is named
  with the folder and the base name of the first call.
\<close>

theorem second_initialisation_refused:
  assumes "InitDumpCollection os n folder name initial = (True, after_init)"
    and "later_state = run os later after_init"
  shows "\<exists>f d. folder = Some f \<and> name = Some d \<and>
           config after_init = (True, n, f, d, f @ d @ ''*.dmp'') \<and> config later_state = config after_init \<and>
           fst (InitDumpCollection os n' folder' name' later_state) = False \<and>
           lastError (snd (InitDumpCollection os n' folder' name' later_state)) = ERROR_ACCESS_DENIED \<and>
           config (snd (InitDumpCollection os n' folder' name' later_state)) = config after_init \<and>
           (\<forall>file h. EvCreateFile file h \<in>
                       set (new_events later_state (snd (CreateMiniDump os processId dumpName later_state))) \<or>
                     EvCreateFile file h \<in> set (new_events later_state (CreateMiniDump_fault os ep later_state)) \<longrightarrow>
              (\<exists>pre t. file = pre @ f @ d @ ''_'' @ time_stamp t @ ''.dmp''))"
proof -
  from init_success [OF assms(1)] obtain f d where
    fd: "folder = Some f" "name = Some d" "config after_init = (True, n, f, d, f @ d @ ''*.dmp'')"
    by blast
  then have armed: "g_collectDumps after_init" by (simp add: config_def)
  have c: "config later_state = config after_init" unfolding assms(2) by (rule config_run [OF armed])
  with armed have armed2: "g_collectDumps later_state" by (simp add: config_def)
  from c fd(3) have g: "g_dumpFolder later_state = f" "g_dumpName later_state = d" by (simp_all add: config_def)
  from CreateMiniDump_events [of os processId dumpName later_state] obtain es where
    es: "calls (snd (CreateMiniDump os processId dumpName later_state)) = calls later_state @ es"
      "\<forall>n h. EvCreateFile n h \<in> set es \<longrightarrow>
        (\<exists>t. n = g_minidumpStringBuilder later_state @ g_dumpFolder later_state @ g_dumpName later_state @ ''_'' @
                  time_stamp t @ ''.dmp'')"
    by blast
  from fault_events [of os ep later_state] obtain es' where
    es': "calls (CreateMiniDump_fault os ep later_state) = calls later_state @ es'"
      "\<forall>n h. EvCreateFile n h \<in> set es' \<longrightarrow>
        (\<exists>t. n = g_minidumpStringBuilder later_state @ g_dumpFolder later_state @ g_dumpName later_state @ ''_'' @
                  time_stamp t @ ''.dmp'')"
    by blast
  have names: "\<forall>file h. EvCreateFile file h \<in>
                       set (new_events later_state (snd (CreateMiniDump os processId dumpName later_state))) \<or>
                     EvCreateFile file h \<in> set (new_events later_state (CreateMiniDump_fault os ep later_state)) \<longrightarrow>
              (\<exists>pre t. file = pre @ f @ d @ ''_'' @ time_stamp t @ ''.dmp'')"
    unfolding new_events_append [OF es(1)] new_events_append [OF es'(1)]
    using es(2) es'(2) unfolding g by blast
  from armed_init [OF armed2] have
    "fst (InitDumpCollection os n' folder' name' later_state) = False"
    "lastError (snd (InitDumpCollection os n' folder' name' later_state)) = ERROR_ACCESS_DENIED"
    "config (snd (InitDumpCollection os n' folder' name' later_state)) = config later_state"
    by (simp_all add: config_prims lastError_SetLastError)
  with fd c names show ?thesis by simp
qed

theorem second_initialisation_refused_witness:
  "InitDumpCollection windows 2 (Some dumps_dir) (Some ''app'') (start (pc [])) =
     (True, armed 2 []) \<and>
   fst (InitDumpCollection windows 7 (Some ''D:'') None
          (run windows [Call_CreateMiniDump 999 ''zzz'', Call_InitDumpCollection 5 None None]
             (armed 2 []))) = False \<and>
   lastError (snd (InitDumpCollection windows 7 (Some ''D:'') None
          (run windows [Call_CreateMiniDump 999 ''zzz'', Call_InitDumpCollection 5 None None]
             (armed 2 [])))) = ERROR_ACCESS_DENIED \<and>
   config (snd (InitDumpCollection windows 7 (Some ''D:'') None
          (run windows [Call_CreateMiniDump 999 ''zzz'', Call_InitDumpCollection 5 None None]
             (armed 2 [])))) = (True, 2, dumps_dir, ''app'', dumps_dir @ ''app*.dmp'')"
proof -
  have h: "InitDumpCollection windows 2 (Some dumps_dir) (Some ''app'') (start (pc [])) =
     (True, armed 2 [])"
    by (simp add: armed_def InitDumpCollection_def CheckDumpNameConstraints_def wcslen_def
          LOG_def emit_def windows_def m_PathIsRelative_def dumps_dir_def start_def Let_def)
  let ?x = "InitDumpCollection windows 7 (Some ''D:'') None
          (run windows [Call_CreateMiniDump 999 ''zzz'', Call_InitDumpCollection 5 None None]
             (armed 2 []))"
  from second_initialisation_refused [OF h refl,
      where later = "[Call_CreateMiniDump 999 ''zzz'', Call_InitDumpCollection 5 None None]"
        and n' = 7 and folder' = "Some ''D:''" and name' = None]
  have "\<exists>f d. Some dumps_dir = Some f \<and> Some ''app'' = Some d \<and>
          config (armed 2 []) = (True, 2, f, d, f @ d @ ''*.dmp'') \<and>
          fst ?x = False \<and> lastError (snd ?x) = ERROR_ACCESS_DENIED \<and>
          config (snd ?x) = config (armed 2 [])"
    by blast
  then have "fst ?x = False \<and> lastError (snd ?x) = ERROR_ACCESS_DENIED \<and>
          config (snd ?x) = (True, 2, dumps_dir, ''app'', dumps_dir @ ''app*.dmp'')"
    by (auto simp del: run.simps)
  with h show ?thesis by blast
qed

section \<open>A capture after a failed retention\<close>

text \<open>
  C3. The claim is that a capture whose retention step fails still builds the file name,
  creates the file and calls the dump writer, so that a new dump file is produced. The
  first on-demand capture of a process does: the failure is logged and ignored, the file is
  created, the dump is written and the file is in the folder. In the second capture, an
  hour later, the retention step fails and is ignored again, but the stream that builds the
  name still holds the first name: \<^verbatim>\<open>CreateFile\<close> is given the two names joined and returns
  \<^verbatim>\<open>INVALID_HANDLE_VALUE\<close>, the dump writer is not called and the folder holds the files it
  held before.
\<close>

theorem second_capture_produces_no_dump:
  "fst (CreateMiniDump windows 1234 ''app'' two_dumps) = True \<and>
   new_events two_dumps (snd (CreateMiniDump windows 1234 ''app'' two_dumps)) =
     [Log [S ''CreateMiniDump''], EvOpenProcess 1234 100,
      Log [S ''Creating Mini dump...''],
      Log [S (''Creating directory: '' @ [CHR 0x27]), S (''C:'' @ [CHR 0x5C] @ ''dumps'')],
      EvCreateDirectory (''C:'' @ [CHR 0x5C] @ ''dumps'') False,
      Log [S ''Created directory''],
      Log [S ''Removing old minidumps, pattern: '', S (dumps_dir @ ''app*.dmp'')],
      EvFindFirstFile (dumps_dir @ ''app*.dmp'') True,
      EvDeleteFile (dumps_dir @ ''app*.dmpapp_1.dmp'') False,
      Log [S ''DeleteFile failed: '', D 123],
      Log [S ''Failed to remove old minidumps, ignoring it...''],
      Log [S ''Creating name...''],
      Log [S ''Minidump file name: '', S (dumps_dir @ ''app_05.03.2024 - 9_7_2.dmp'')],
      EvCreateFile (dumps_dir @ ''app_05.03.2024 - 9_7_2.dmp'') 104,
      EvLoadLibrary ''DbgHelp.dll'' True,
      EvGetProcAddress ''MiniDumpWriteDump'' True,
      EvMiniDumpWriteDump 100 1234 104 None True,
      Log [S ''Minidump saved''], EvCloseHandle 104 True, EvCloseHandle 100 True] \<and>
   map fst (m_files (world captured_once)) =
     [dumps_dir @ ''app_1.dmp'', dumps_dir @ ''app_2.dmp'',
      dumps_dir @ ''app_05.03.2024 - 9_7_2.dmp''] \<and>
   g_minidumpStringBuilder captured_once = dumps_dir @ ''app_05.03.2024 - 9_7_2.dmp'' \<and>
   fst (CreateMiniDump windows 1234 ''app'' captured_once) = True \<and>
   new_events captured_once (snd (CreateMiniDump windows 1234 ''app'' captured_once)) =
     [Log [S ''CreateMiniDump''], EvOpenProcess 1234 108,
      Log [S ''Creating Mini dump...''],
      Log [S (''Creating directory: '' @ [CHR 0x27]), S (''C:'' @ [CHR 0x5C] @ ''dumps'')],
      EvCreateDirectory (''C:'' @ [CHR 0x5C] @ ''dumps'') False,
      Log [S ''Created directory''],
      Log [S ''Removing old minidumps, pattern: '', S (dumps_dir @ ''app*.dmp'')],
      EvFindFirstFile (dumps_dir @ ''app*.dmp'') True,
      EvDeleteFile (dumps_dir @ ''app*.dmpapp_1.dmp'') False,
      Log [S ''DeleteFile failed: '', D 123],
      Log [S ''Failed to remove old minidumps, ignoring it...''],
      Log [S ''Creating name...''],
      Log [S ''Minidump file name: '',
           S (dumps_dir @ ''app_05.03.2024 - 9_7_2.dmp'' @ dumps_dir @ ''app_05.03.2024 - 10_0_0.dmp'')],
      EvCreateFile
        (dumps_dir @ ''app_05.03.2024 - 9_7_2.dmp'' @ dumps_dir @ ''app_05.03.2024 - 10_0_0.dmp'')
        INVALID_HANDLE_VALUE,
      Log [S ''CreateFile returned INVALID_HANDLE_VALUE: GetLastError()='', D 123],
      EvCloseHandle 108 True] \<and>
   map fst (m_files (world (snd (CreateMiniDump windows 1234 ''app'' captured_once)))) =
     [dumps_dir @ ''app_1.dmp'', dumps_dir @ ''app_2.dmp'',
      dumps_dir @ ''app_05.03.2024 - 9_7_2.dmp'']"
  using first_capture_run second_capture_run by simp

section \<open>The name validator\<close>

text \<open>
  C4. \<open>CheckDumpNameConstraints name\<close> is \<^verbatim>\<open>FALSE\<close> exactly when \<open>name\<close> is empty or contains
  a slash, a backslash, two consecutive dots, a colon, an asterisk, a question mark or a
  double quote; it is \<^verbatim>\<open>TRUE\<close> for every other string.
\<close>

theorem CheckDumpNameConstraints_exact:
  "CheckDumpNameConstraints name = False \<longleftrightarrow>
     (name = [] \<or> CHR ''/'' \<in> set name \<or> CHR 0x5C \<in> set name \<or>
      (\<exists>u v. name = u @ ''..'' @ v) \<or> CHR '':'' \<in> set name \<or> CHR ''*'' \<in> set name \<or>
      CHR ''?'' \<in> set name \<or> CHR 0x22 \<in> set name)"
proof -
  have "CheckDumpNameConstraints name = False \<longleftrightarrow>
     (wcschr name CHR ''/'' \<noteq> None \<or> wcschr name (CHR 0x5C) \<noteq> None \<or>
      wcsstr name ''..'' \<noteq> None \<or> wcsstr name [CHR '':''] \<noteq> None \<or>
      wcsstr name [CHR ''*''] \<noteq> None \<or> wcsstr name [CHR ''?''] \<noteq> None \<or>
      wcsstr name [CHR 0x22] \<noteq> None \<or> name = [])"
    by (simp add: CheckDumpNameConstraints_def wcslen_def Let_def)
  also have "\<dots> \<longleftrightarrow>
     (name = [] \<or> CHR ''/'' \<in> set name \<or> CHR 0x5C \<in> set name \<or>
      (\<exists>u v. name = u @ ''..'' @ v) \<or> CHR '':'' \<in> set name \<or> CHR ''*'' \<in> set name \<or>
      CHR ''?'' \<in> set name \<or> CHR 0x22 \<in> set name)"
    by (simp only: wcschr_found wcsstr_single) (simp only: wcsstr_found, blast)
  finally show ?thesis .
qed

theorem CheckDumpNameConstraints_exact_witness:
  "CheckDumpNameConstraints ''app'' = True \<and> CheckDumpNameConstraints ''a..b'' = False \<and>
   CheckDumpNameConstraints [] = False \<and> CheckDumpNameConstraints ''a?'' = False"
proof -
  have "\<not> (\<exists>u v. ''app'' = u @ ''..'' @ v)"
    unfolding wcsstr_found [symmetric] by simp
  then have "CheckDumpNameConstraints ''app'' \<noteq> False"
    using CheckDumpNameConstraints_exact [of "''app''"] by simp
  moreover have "CheckDumpNameConstraints ''a..b'' = False"
    using CheckDumpNameConstraints_exact [of "''a..b''"]
    by (metis append_Cons append_Nil)
  moreover have "CheckDumpNameConstraints [] = False"
    using CheckDumpNameConstraints_exact [of "[]"] by simp
  moreover have "CheckDumpNameConstraints ''a?'' = False"
    using CheckDumpNameConstraints_exact [of "''a?''"] by simp
  ultimately show ?thesis by simp
qed

section \<open>The format of the file name\<close>

text \<open>
  C5, as the spec states it: the day, month, hour, minute and second of the file name are
  each written with two digits. It fails at 09:07:02 on 5 March 2024, where the name ends
  with \<^verbatim>\<open>05.03.2024 - 9_7_2.dmp\<close>; and the name made an hour later, at 10:00:00, ends with
  \<^verbatim>\<open>05.03.2024 - 10_0_0.dmp\<close>, which comes before the earlier one in the order of strings.
\<close>

theorem time_of_day_not_padded_counterexample:
  "wHour (os_GetLocalTime windows (world two_dumps)) = 9 \<and>
   g_minidumpFileName (CreateMinidumpFileName windows two_dumps) =
     dumps_dir @ ''app_05.03.2024 - 9_7_2.dmp'' \<and>
   g_minidumpFileName (CreateMinidumpFileName windows two_dumps) \<noteq>
     dumps_dir @ ''app_05.03.2024 - 09_07_02.dmp'' \<and>
   wHour (os_GetLocalTime windows (world an_hour_later)) = 10 \<and>
   g_minidumpFileName (CreateMinidumpFileName windows an_hour_later) =
     dumps_dir @ ''app_05.03.2024 - 10_0_0.dmp''"
  by (simp add: two_dumps_name)
     (simp add: an_hour_later_def two_dumps_def armed_state CreateMinidumpFileName_def windows_def
        pc_def LOG_def emit_def Let_def decimal.simps dumps_dir_def)

text \<open>
  C5, amended. The file name is what the stream held, the folder, the base name, an
  underscore, the day and the month with two digits each (a zero before a single digit),
  the year, and the hour, the minute and the second in plain decimal, then \<^verbatim>\<open>.dmp\<close>.
\<close>

theorem file_name_format:
  assumes "t = os_GetLocalTime os (world s)"
  shows "g_minidumpFileName (CreateMinidumpFileName os s) =
           g_minidumpStringBuilder s @ g_dumpFolder s @ g_dumpName s @ ''_'' @
           two_digits (wDay t) @ ''.'' @ two_digits (wMonth t) @ ''.'' @ decimal (unat (wYear t)) @
           '' - '' @ decimal (unat (wHour t)) @ ''_'' @ decimal (unat (wMinute t)) @ ''_'' @
           decimal (unat (wSecond t)) @ ''.dmp'' \<and>
         (w < 10 \<longrightarrow> two_digits w = [CHR ''0'', ''0123456789'' ! unat w]) \<and>
         (10 \<le> w \<and> w < 100 \<longrightarrow> two_digits w = decimal (unat w) \<and> length (two_digits w) = 2)"
proof (intro conjI impI)
  show "g_minidumpFileName (CreateMinidumpFileName os s) =
           g_minidumpStringBuilder s @ g_dumpFolder s @ g_dumpName s @ ''_'' @
           two_digits (wDay t) @ ''.'' @ two_digits (wMonth t) @ ''.'' @ decimal (unat (wYear t)) @
           '' - '' @ decimal (unat (wHour t)) @ ''_'' @ decimal (unat (wMinute t)) @ ''_'' @
           decimal (unat (wSecond t)) @ ''.dmp''"
    by (simp add: CreateMinidumpFileName_result globals_LOG built_name_def time_stamp_def assms)
  {
    assume "w < 10"
    then have "unat w < 10" by (simp add: word_less_nat_alt)
    with \<open>w < 10\<close> show "two_digits w = [CHR ''0'', ''0123456789'' ! unat w]"
      by (simp add: two_digits_def decimal_digit)
  }
  {
    assume "10 \<le> w \<and> w < 100"
    then have "10 \<le> unat w" "unat w < 100" "\<not> w < 10"
      by (simp_all add: word_less_nat_alt word_le_nat_alt)
    then show "two_digits w = decimal (unat w)" "length (two_digits w) = 2"
      by (simp_all add: two_digits_def decimal_two)
  }
qed

theorem file_name_format_witness:
  "(5 :: 16 word) < 10 \<and> two_digits 5 = ''05'' \<and> (10 :: 16 word) \<le> 12 \<and> (12 :: 16 word) < 100 \<and>
   length (two_digits 12) = 2 \<and>
   g_minidumpFileName (CreateMinidumpFileName windows two_dumps) =
     dumps_dir @ ''app_'' @ two_digits 5 @ ''.'' @ two_digits 3 @ ''.2024 - 9_7_2.dmp''"
proof -
  have t: "\<lparr>wYear = 2024, wMonth = 3, wDay = 5, wHour = 9, wMinute = 7, wSecond = 2\<rparr> =
           os_GetLocalTime windows (world two_dumps)"
    by (simp add: two_dumps_def armed_state windows_def pc_def)
  have g: "g_minidumpStringBuilder two_dumps = []" "g_dumpFolder two_dumps = dumps_dir"
    "g_dumpName two_dumps = ''app''"
    by (simp_all add: two_dumps_def armed_state)
  have "(5 :: 16 word) < 10" "(10 :: 16 word) \<le> 12 \<and> (12 :: 16 word) < 100" by simp_all
  with file_name_format [OF t, of 5] file_name_format [OF t, of 12]
  show ?thesis
    by (simp add: g decimal.simps)
qed

section \<open>The file handle\<close>

text \<open>
  C6. The claim is that a file handle that \<^verbatim>\<open>CreateFile\<close> gave is closed before the capture
  returns, also when the dump-writing facility cannot be resolved. On the machine where
  DbgHelp.dll cannot be loaded the capture creates the file with handle 104, returns after
  \<^verbatim>\<open>LoadLibrary\<close> and never calls \<^verbatim>\<open>CloseHandle\<close> on it: the handle is still open.
\<close>

theorem handle_left_open_without_dbghelp:
  "fst (CreateMiniDump windows 1234 ''zzz'' without_dbghelp) = True \<and>
   EvCreateFile (dumps_dir @ ''app_05.03.2024 - 9_7_2.dmp'') 104 \<in>
     set (new_events without_dbghelp (snd (CreateMiniDump windows 1234 ''zzz'' without_dbghelp))) \<and>
   EvCloseHandle 104 True \<notin>
     set (new_events without_dbghelp (snd (CreateMiniDump windows 1234 ''zzz'' without_dbghelp))) \<and>
   EvCloseHandle 104 False \<notin>
     set (new_events without_dbghelp (snd (CreateMiniDump windows 1234 ''zzz'' without_dbghelp))) \<and>
   m_open (world without_dbghelp) = [] \<and>
   m_open (world (snd (CreateMiniDump windows 1234 ''zzz'' without_dbghelp))) = [104]"
proof -
  have "m_open (world without_dbghelp) = []"
    by (simp add: without_dbghelp_def pc_def)
  with without_dbghelp_run show ?thesis by simp
qed

section \<open>The exception parameter\<close>

text \<open>
  C7. When the folder is there, \<^verbatim>\<open>CreateFile\<close> gives a handle, and DbgHelp.dll and its entry
  point are resolved, the capture calls the dump writer with its process handle, its process
  id and the handle of the file. With a fault context that is not null the exception
  parameter is the record whose \<^verbatim>\<open>ThreadId\<close> is the current thread, whose \<^verbatim>\<open>ExceptionPointers\<close>
  is that context and whose \<^verbatim>\<open>ClientPointers\<close> is \<^verbatim>\<open>TRUE\<close>; with a null context the parameter is
  null. The capture makes no other call of the dump writer.
\<close>

theorem exception_information_passed:
  assumes "CreateMinidumpFolder os (LOG [S ''Creating Mini dump...''] s) = (True, s2)"
    and "RemoveOldMinidumps os s2 = (removed, s3)"
    and "os_CreateFile os (built_name os s3) (world s3) = ((hFile, e), w4)"
    and "hFile \<noteq> INVALID_HANDLE_VALUE" and "hFile \<noteq> nullptr"
    and "os_LoadLibrary os ''DbgHelp.dll'' w4 = (Some m, w5)"
    and "os_GetProcAddress os m ''MiniDumpWriteDump'' w5"
    and "new = new_events s (CreateMiniDump_capture os exceptionPointers processHandle
                               processId dumpName s)"
  shows "(exceptionPointers \<noteq> 0 \<longrightarrow>
            (\<exists>rv. EvMiniDumpWriteDump processHandle processId hFile
                    (Some \<lparr>ThreadId = os_GetCurrentThreadId os w5,
                           ExceptionPointers = exceptionPointers,
                           ClientPointers = True\<rparr>) rv \<in> set new)) \<and>
         (exceptionPointers = 0 \<longrightarrow>
            (\<exists>rv. EvMiniDumpWriteDump processHandle processId hFile None rv \<in> set new)) \<and>
         (\<forall>hp p hf param rv. EvMiniDumpWriteDump hp p hf param rv \<in> set new \<longrightarrow>
            hp = processHandle \<and> p = processId \<and> hf = hFile \<and>
            (exceptionPointers \<noteq> 0 \<longrightarrow>
               param = Some \<lparr>ThreadId = os_GetCurrentThreadId os w5,
                              ExceptionPointers = exceptionPointers,
                              ClientPointers = True\<rparr>) \<and>
            (exceptionPointers = 0 \<longrightarrow> param = None))"
proof -
  from capture_written [OF assms(1-7), of exceptionPointers processHandle processId dumpName]
  obtain es0 rv msg b tl where
    c: "calls (CreateMiniDump_capture os exceptionPointers processHandle processId dumpName s) =
       calls s @ es0 @
         [Log [S ''Creating name...''], Log [S ''Minidump file name: '', S (built_name os s3)],
          EvCreateFile (built_name os s3) hFile,
          EvLoadLibrary ''DbgHelp.dll'' True, EvGetProcAddress ''MiniDumpWriteDump'' True,
          EvMiniDumpWriteDump processHandle processId hFile (exception_param os w5 exceptionPointers) rv,
          Log msg, EvCloseHandle hFile b] @ tl"
    and es0: "list_all fs_event es0" and tl: "tl = [] \<or> (\<exists>x. tl = [Log x])"
    by blast
  note none = fs_event_only [OF es0]
  have new: "new = es0 @
         [Log [S ''Creating name...''], Log [S ''Minidump file name: '', S (built_name os s3)],
          EvCreateFile (built_name os s3) hFile,
          EvLoadLibrary ''DbgHelp.dll'' True, EvGetProcAddress ''MiniDumpWriteDump'' True,
          EvMiniDumpWriteDump processHandle processId hFile (exception_param os w5 exceptionPointers) rv,
          Log msg, EvCloseHandle hFile b] @ tl"
    unfolding assms(8) by (rule new_events_append) (simp add: c)
  have called: "EvMiniDumpWriteDump processHandle processId hFile
                  (exception_param os w5 exceptionPointers) rv \<in> set new"
    unfolding new by simp
  have p1: "exception_param os w5 exceptionPointers =
              Some \<lparr>ThreadId = os_GetCurrentThreadId os w5, ExceptionPointers = exceptionPointers,
                     ClientPointers = True\<rparr>" if "exceptionPointers \<noteq> 0"
    using that by (simp add: exception_param_def)
  have p2: "exception_param os w5 exceptionPointers = None" if "exceptionPointers = 0"
    using that by (simp add: exception_param_def)
  have only: "hp = processHandle \<and> p = processId \<and> hf = hFile \<and>
              param = exception_param os w5 exceptionPointers"
    if m: "EvMiniDumpWriteDump hp p hf param rv' \<in> set new" for hp p hf param rv'
  proof -
    from tl have "EvMiniDumpWriteDump hp p hf param rv' \<notin> set tl" by auto
    moreover from none(2) have "EvMiniDumpWriteDump hp p hf param rv' \<notin> set es0" by blast
    ultimately show ?thesis using m unfolding new by simp
  qed
  have A: "exceptionPointers \<noteq> 0 \<longrightarrow>
            (\<exists>rv. EvMiniDumpWriteDump processHandle processId hFile
                    (Some \<lparr>ThreadId = os_GetCurrentThreadId os w5,
                           ExceptionPointers = exceptionPointers,
                           ClientPointers = True\<rparr>) rv \<in> set new)"
    using called p1 by auto
  have B: "exceptionPointers = 0 \<longrightarrow>
            (\<exists>rv. EvMiniDumpWriteDump processHandle processId hFile None rv \<in> set new)"
    using called p2 by auto
  have C: "\<forall>hp p hf param rv. EvMiniDumpWriteDump hp p hf param rv \<in> set new \<longrightarrow>
            hp = processHandle \<and> p = processId \<and> hf = hFile \<and>
            (exceptionPointers \<noteq> 0 \<longrightarrow>
               param = Some \<lparr>ThreadId = os_GetCurrentThreadId os w5,
                              ExceptionPointers = exceptionPointers,
                              ClientPointers = True\<rparr>) \<and>
            (exceptionPointers = 0 \<longrightarrow> param = None)"
  proof (intro allI impI)
    fix hp p hf param rv
    assume "EvMiniDumpWriteDump hp p hf param rv \<in> set new"
    from only [OF this] p1 p2
    show "hp = processHandle \<and> p = processId \<and> hf = hFile \<and>
            (exceptionPointers \<noteq> 0 \<longrightarrow>
               param = Some \<lparr>ThreadId = os_GetCurrentThreadId os w5,
                              ExceptionPointers = exceptionPointers,
                              ClientPointers = True\<rparr>) \<and>
            (exceptionPointers = 0 \<longrightarrow> param = None)"
      by simp
  qed
  show ?thesis by (rule conjI [OF A conjI [OF B C]])
qed

theorem exception_information_passed_witness:
  "fst (CreateMinidumpFolder windows (LOG [S ''Creating Mini dump...''] two_dumps)) = True \<and>
   fst (fst (os_CreateFile windows (dumps_dir @ ''app_05.03.2024 - 9_7_2.dmp'') (world two_dumps))) = 100 \<and>
   (100 :: HANDLE) \<noteq> INVALID_HANDLE_VALUE \<and> (100 :: HANDLE) \<noteq> nullptr \<and>
   fst (os_LoadLibrary windows ''DbgHelp.dll''
          (snd (os_CreateFile windows (dumps_dir @ ''app_05.03.2024 - 9_7_2.dmp'') (world two_dumps)))) =
     Some 1 \<and>
   os_GetProcAddress windows 1 ''MiniDumpWriteDump''
     (snd (os_LoadLibrary windows ''DbgHelp.dll''
          (snd (os_CreateFile windows (dumps_dir @ ''app_05.03.2024 - 9_7_2.dmp'') (world two_dumps))))) \<and>
   (4096 :: nat) \<noteq> 0 \<and>
   (\<exists>rv. EvMiniDumpWriteDump (- 1) 4242 100
           (Some \<lparr>ThreadId = 77, ExceptionPointers = 4096, ClientPointers = True\<rparr>) rv \<in>
         set (new_events two_dumps (CreateMiniDump_capture windows 4096 (- 1) 4242 ''app'' two_dumps))) \<and>
   (\<exists>rv. EvMiniDumpWriteDump (- 1) 4242 100 None rv \<in>
         set (new_events two_dumps (CreateMiniDump_capture windows 0 (- 1) 4242 ''app'' two_dumps)))"
proof -
  let ?s1 = "LOG [S ''Creating Mini dump...''] two_dumps"
  let ?s2 = "snd (CreateMinidumpFolder windows ?s1)"
  let ?s3 = "snd (RemoveOldMinidumps windows ?s2)"
  let ?n = "dumps_dir @ ''app_05.03.2024 - 9_7_2.dmp''"
  let ?f = "os_CreateFile windows ?n (world two_dumps)"
  let ?l = "os_LoadLibrary windows ''DbgHelp.dll'' (snd ?f)"
  have h1: "CreateMinidumpFolder windows ?s1 = (True, ?s2)"
    using two_dumps_folder by (metis prod.collapse)
  have h2: "RemoveOldMinidumps windows ?s2 = (False, ?s3)"
    using two_dumps_retention by (metis prod.collapse)
  have h3: "os_CreateFile windows (built_name windows ?s3) (world ?s3) = ((100, snd (fst ?f)), snd ?f)"
    unfolding two_dumps_reached using two_dumps_services(1) by (metis prod.collapse)
  have h4: "(100 :: HANDLE) \<noteq> INVALID_HANDLE_VALUE" by simp
  have h5: "(100 :: HANDLE) \<noteq> nullptr" by simp
  have h6: "os_LoadLibrary windows ''DbgHelp.dll'' (snd ?f) = (Some 1, snd ?l)"
    using two_dumps_services(2) by (metis prod.collapse)
  note h7 = two_dumps_services(3)
  from exception_information_passed [OF h1 h2 h3 h4 h5 h6 h7 refl, of 4096 "- 1" 4242 "''app''"]
  have a: "\<exists>rv. EvMiniDumpWriteDump (- 1) 4242 100
           (Some \<lparr>ThreadId = 77, ExceptionPointers = 4096, ClientPointers = True\<rparr>) rv \<in>
         set (new_events two_dumps (CreateMiniDump_capture windows 4096 (- 1) 4242 ''app'' two_dumps))"
    by (simp add: two_dumps_services(4))
  from exception_information_passed [OF h1 h2 h3 h4 h5 h6 h7 refl, of 0 "- 1" 4242 "''app''"]
  have b: "\<exists>rv. EvMiniDumpWriteDump (- 1) 4242 100 None rv \<in>
         set (new_events two_dumps (CreateMiniDump_capture windows 0 (- 1) 4242 ''app'' two_dumps))"
    by simp
  from a b two_dumps_folder two_dumps_services show ?thesis by simp
qed

section \<open>The checks of the exported CreateMiniDump\<close>

text \<open>
  C8. Without a successful initialisation the exported \<^verbatim>\<open>CreateMiniDump\<close> returns \<^verbatim>\<open>FALSE\<close> with
  \<^verbatim>\<open>ERROR_ACCESS_DENIED\<close>, whatever the name and the process; initialised and with a name the
  validator refuses it returns \<^verbatim>\<open>FALSE\<close> with \<^verbatim>\<open>ERROR_BAD_ARGUMENTS\<close>, whatever the process, and
  in both cases it calls no service; with a valid name and a process that cannot be opened
  it returns \<^verbatim>\<open>FALSE\<close> after the one call of \<^verbatim>\<open>OpenProcess\<close>.
\<close>

theorem CreateMiniDump_checks_in_order:
  "(\<not> g_collectDumps s \<longrightarrow>
      fst (CreateMiniDump os processId dumpName s) = False \<and>
      lastError (snd (CreateMiniDump os processId dumpName s)) = ERROR_ACCESS_DENIED \<and>
      new_events s (snd (CreateMiniDump os processId dumpName s)) = [Log [S ''CreateMiniDump'']]) \<and>
   (g_collectDumps s \<and> \<not> CheckDumpNameConstraints dumpName \<longrightarrow>
      fst (CreateMiniDump os processId dumpName s) = False \<and>
      lastError (snd (CreateMiniDump os processId dumpName s)) = ERROR_BAD_ARGUMENTS \<and>
      new_events s (snd (CreateMiniDump os processId dumpName s)) = [Log [S ''CreateMiniDump'']]) \<and>
   (g_collectDumps s \<and> CheckDumpNameConstraints dumpName \<and>
    fst (fst (os_OpenProcess os processId (world s))) = nullptr \<longrightarrow>
      fst (CreateMiniDump os processId dumpName s) = False \<and>
      new_events s (snd (CreateMiniDump os processId dumpName s)) =
        [Log [S ''CreateMiniDump''], EvOpenProcess processId nullptr, Log [S ''OpenProcess failed...'']])"
  by (simp add: CreateMiniDump_def Let_def split_beta new_events_def calls_prims
        calls_SetLastError lastError_SetLastError fst_OpenProcess world_LOG globals_LOG)

theorem CreateMiniDump_checks_in_order_witness:
  "\<not> g_collectDumps (start (pc [])) \<and>
   fst (CreateMiniDump windows 1234 ''a/b'' (start (pc []))) = False \<and>
   lastError (snd (CreateMiniDump windows 1234 ''a/b'' (start (pc [])))) = ERROR_ACCESS_DENIED \<and>
   g_collectDumps two_dumps \<and> \<not> CheckDumpNameConstraints ''a/b'' \<and>
   fst (CreateMiniDump windows 999 ''a/b'' two_dumps) = False \<and>
   lastError (snd (CreateMiniDump windows 999 ''a/b'' two_dumps)) = ERROR_BAD_ARGUMENTS \<and>
   CheckDumpNameConstraints ''app'' \<and>
   fst (fst (os_OpenProcess windows 999 (world two_dumps))) = nullptr \<and>
   fst (CreateMiniDump windows 999 ''app'' two_dumps) = False \<and>
   new_events two_dumps (snd (CreateMiniDump windows 999 ''app'' two_dumps)) =
     [Log [S ''CreateMiniDump''], EvOpenProcess 999 nullptr, Log [S ''OpenProcess failed...'']]"
proof -
  have a: "\<not> g_collectDumps (start (pc []))" by (simp add: start_def)
  have b: "fst (fst (os_OpenProcess windows 999 (world two_dumps))) = nullptr"
    by (simp add: two_dumps_fields windows_def m_OpenProcess_def pc_def)
  from CreateMiniDump_checks_in_order
      [where s = "start (pc [])" and os = windows and processId = 1234 and dumpName = "''a/b''"]
    CreateMiniDump_checks_in_order
      [where s = two_dumps and os = windows and processId = 999 and dumpName = "''a/b''"]
    CreateMiniDump_checks_in_order
      [where s = two_dumps and os = windows and processId = 999 and dumpName = "''app''"]
    a b two_dumps_fields(1) valid_names
  show ?thesis by simp
qed

section \<open>The name argument\<close>



section \<open>The result of the exported CreateMiniDump\<close>

text \<open>
  C10. Initialised, with a valid name and a process that can be opened, the exported
  \<^verbatim>\<open>CreateMiniDump\<close> returns \<^verbatim>\<open>TRUE\<close> whatever happens later; on the machine whose dump folder
  cannot be created it returns \<^verbatim>\<open>TRUE\<close>, calls neither \<^verbatim>\<open>CreateFile\<close> nor the dump writer
  and leaves no file.
\<close>

theorem CreateMiniDump_true_without_dump:
  "(g_collectDumps s \<and> CheckDumpNameConstraints dumpName \<and>
    fst (fst (os_OpenProcess os processId (world s))) \<noteq> nullptr \<longrightarrow>
      fst (CreateMiniDump os processId dumpName s) = True) \<and>
   fst (CreateMiniDump windows 1234 ''app'' unusable_folder) = True \<and>
   new_events unusable_folder (snd (CreateMiniDump windows 1234 ''app'' unusable_folder)) =
     [Log [S ''CreateMiniDump''], EvOpenProcess 1234 100,
      Log [S ''Creating Mini dump...''],
      Log [S (''Creating directory: '' @ [CHR 0x27]), S (''C:'' @ [CHR 0x5C] @ ''a?b'')],
      EvCreateDirectory (''C:'' @ [CHR 0x5C] @ ''a?b'') False,
      Log [S (''CreateDirectory '' @ [CHR 0x27]), S (''C:'' @ [CHR 0x5C] @ ''a?b''),
           S (CHR 0x27 # ''failed: ''), D 123],
      EvCloseHandle 100 True] \<and>
   m_files (world (snd (CreateMiniDump windows 1234 ''app'' unusable_folder))) = []"
proof -
  have "g_collectDumps s \<and> CheckDumpNameConstraints dumpName \<and>
    fst (fst (os_OpenProcess os processId (world s))) \<noteq> nullptr \<longrightarrow>
      fst (CreateMiniDump os processId dumpName s) = True"
    by (simp add: CreateMiniDump_def Let_def split_beta globals_LOG fst_OpenProcess world_LOG)
  with unusable_folder_run show ?thesis by simp
qed

theorem CreateMiniDump_true_without_dump_witness:
  "g_collectDumps without_dbghelp \<and> CheckDumpNameConstraints ''zzz'' \<and>
   fst (fst (os_OpenProcess windows 1234 (world without_dbghelp))) \<noteq> nullptr \<and>
   fst (CreateMiniDump windows 1234 ''zzz'' without_dbghelp) = True"
proof -
  have "fst (fst (os_OpenProcess windows 1234 (world without_dbghelp))) \<noteq> nullptr"
    by (simp add: without_dbghelp_fields)
  with CreateMiniDump_true_without_dump
    [where s = without_dbghelp and os = windows and processId = 1234 and dumpName = "''zzz''"]
    without_dbghelp_fields(1) valid_names(1)
  show ?thesis by simp
qed

end
